theory Spec2Isabelle
  imports Main
begin

section \<open>JavaScript values and the JSON codec\<close>

text \<open>
  The values that travel through the channel. A number is represented by the string
  that \<^verbatim>\<open>Number.prototype.toString\<close> gives for it (\<^verbatim>\<open>5\<close>, \<^verbatim>\<open>-0.5\<close>,
  \<^verbatim>\<open>1e+21\<close>, \<^verbatim>\<open>NaN\<close>): nothing the channel does tells two numbers with the
  same rendering apart. Functions, symbols and cyclic structures are outside the model.
\<close>

datatype jsval =
    Undefined
  | Null
  | Bool bool
  | Num string
  | Str string
  | Arr "jsval list"
  | Obj "(string \<times> jsval) list"

text \<open>
  The exceptions that can leave a function of the channel: the three of the platform
  that the code can meet, and whatever a completion handler of the caller throws.
\<close>

datatype exn =
    SyntaxError
  | TypeError
  | NotFoundError
  | UserError string

text \<open>
  Every function of the model returns the state it leaves behind together with how it
  completed: an exception does not roll back the assignments made before it was thrown.
\<close>

datatype 'a outcome = Returned 'a | Threw exn 'a

fun state_of :: "'a outcome \<Rightarrow> 'a" where
  "state_of (Returned s) = s"
| "state_of (Threw e s) = s"

fun thrown :: "'a outcome \<Rightarrow> exn option" where
  "thrown (Returned s) = None"
| "thrown (Threw e s) = Some e"

fun show_nat :: "nat \<Rightarrow> string" where
  "show_nat n =
     (if n < 10 then [char_of (48 + n)]
      else show_nat (n div 10) @ [char_of (48 + n mod 10)])"

declare show_nat.simps [simp del]

fun join :: "string list \<Rightarrow> string" where
  "join [] = []"
| "join [x] = x"
| "join (x # y # zs) = x @ CHR '','' # join (y # zs)"

text \<open>
  The abstract operation ToString of the language, which is applied to a property key
  (\<^verbatim>\<open>FrameStorage._callbacks[message.ref]\<close>) and by the storage backend to its
  arguments; \<open>None\<close> where it throws a TypeError. The values it meets have been
  produced by \<^verbatim>\<open>JSON.parse\<close>, so no property of them is a function. An object is
  converted by the \<^verbatim>\<open>toString\<close> it inherits, unless it has a property of that
  name itself: that one cannot be called, \<^verbatim>\<open>valueOf\<close> gives no primitive value
  either, and the conversion throws. An array is the join of its elements, null and
  undefined counting as empty.
\<close>

fun ToString :: "jsval \<Rightarrow> string option" where
  "ToString Undefined = Some ''undefined''"
| "ToString Null = Some ''null''"
| "ToString (Bool b) = Some (if b then ''true'' else ''false'')"
| "ToString (Num r) = Some r"
| "ToString (Str s) = Some s"
| "ToString (Arr xs) =
     map_option join
       (those (map (\<lambda>x. if x = Undefined \<or> x = Null then Some [] else ToString x) xs))"
| "ToString (Obj fs) =
     (if ''toString'' \<in> set (map fst fs) then None else Some ''[object Object]'')"

text \<open>
  A message on the wire is a string. \<^verbatim>\<open>JSON.parse\<close> and \<^verbatim>\<open>JSON.stringify\<close>
  belong to the platform, so a string is represented by what \<^verbatim>\<open>JSON.parse\<close> makes of
  it: \<open>Garbage\<close> is a string on which it throws a SyntaxError, \<open>Json v\<close> is a text
  that parses to \<open>v\<close>.
\<close>

datatype wire = Garbage string | Json jsval

definition JSON_parse :: "wire \<Rightarrow> exn + jsval" where
  "JSON_parse d = (case d of Garbage t \<Rightarrow> Inl SyntaxError | Json v \<Rightarrow> Inr v)"

text \<open>
  What \<^verbatim>\<open>JSON.stringify\<close> keeps of a value: a property whose value is undefined is
  left out, an undefined array element becomes null, and so does a number that is not
  finite.
\<close>

definition non_finite :: "string \<Rightarrow> bool" where
  "non_finite r = (r = ''NaN'' \<or> r = ''Infinity'' \<or> r = ''-Infinity'')"

fun json_norm :: "jsval \<Rightarrow> jsval" where
  "json_norm (Arr xs) = Arr (map (\<lambda>x. if x = Undefined then Null else json_norm x) xs)"
| "json_norm (Obj fs) =
     Obj (map (\<lambda>(k, v). (k, json_norm v)) (filter (\<lambda>(k, v). v \<noteq> Undefined) fs))"
| "json_norm (Num r) = (if non_finite r then Null else Num r)"
| "json_norm v = v"

definition JSON_stringify :: "jsval \<Rightarrow> wire" where
  "JSON_stringify v = Json (json_norm v)"

text \<open>
  Reading one of the properties \<open>action\<close>, \<open>ref\<close>, \<open>key\<close>, \<open>value\<close>, \<open>message\<close>:
  on null and undefined this throws a TypeError (\<open>nullish\<close>); on any other value,
  \<open>get_prop\<close> is the property, undefined where it is absent and on every value that is
  not an object.
\<close>

fun nullish :: "jsval \<Rightarrow> bool" where
  "nullish Null = True"
| "nullish Undefined = True"
| "nullish v = False"

fun get_prop :: "jsval \<Rightarrow> string \<Rightarrow> jsval" where
  "get_prop (Obj fs) p = (case map_of fs p of None \<Rightarrow> Undefined | Some v \<Rightarrow> v)"
| "get_prop v p = Undefined"

section \<open>The client: state\<close>

type_synonym window = nat

datatype console_entry = ConsoleError string | ConsoleWarn string

text \<open>
  A completion handler is a function of the caller. The model knows it by a name and by
  whether it throws on given arguments; a call of it is recorded in \<open>calls\<close>.
\<close>

datatype handler = Handler (hid: nat) (hthrows: "jsval \<Rightarrow> jsval \<Rightarrow> exn option")

text \<open>
  \<^verbatim>\<open>FrameStorage._callbacks\<close> holds the completion handlers and, under a guid of its
  own, the onload function that \<^verbatim>\<open>insertIframe\<close> puts there.
\<close>

datatype callback = Completion handler | IframeOnload

text \<open>An entry of \<^verbatim>\<open>buffer\<close>: the name of the bound function and the arguments.\<close>

datatype item =
    Save jsval jsval "handler option"
  | Load jsval "handler option"
  | Empty "handler option"
  | Count "handler option"
  | Key jsval "handler option"

record msg_event =
  ev_origin :: string
  ev_data :: wire
  ev_source :: window

text \<open>
  What both ends of the channel have: the \<^verbatim>\<open>postMessage\<close> calls made (target
  window, data, target origin) and the console.
\<close>

record endpoint =
  posted :: "(window \<times> wire \<times> string) list"
  console :: "console_entry list"

record client = endpoint +
  callbacks :: "string \<rightharpoonup> callback"
  entropy :: "nat \<Rightarrow> string"
  draws :: nat
  body :: "string list"
  listeners :: "window list"
  calls :: "(nat \<times> jsval \<times> jsval) list"
  root :: "string option"
  buffer :: "item list"
  targetWindow :: "window option"
  boundMessageEventHandler :: "window option"
  boundSave :: "(window \<times> string) option"
  boundLoad :: "(window \<times> string) option"
  boundEmpty :: "(window \<times> string) option"
  boundCount :: "(window \<times> string) option"
  boundKey :: "(window \<times> string) option"
  channelOrigin :: string
  contentWindow :: window
  srcSet :: bool
  onloadDone :: bool

text \<open>
  The fields up to \<open>calls\<close> are the state of the page: the process-wide callback
  registry, the random source (\<open>entropy s n\<close> is the hexadecimal rendering of the
  \<open>n\<close>-th \<^verbatim>\<open>Math.random() * (1 << 30)\<close> with its dot removed), the ids of the
  children of \<^verbatim>\<open>document.body\<close>, the message listeners of \<^verbatim>\<open>window\<close> (each a
  \<^verbatim>\<open>handleMessageEvent\<close> bound to a target window) and the handler calls made, each
  with the name of the handler and its two arguments. The rest are the variables of the
  closure of \<^verbatim>\<open>FrameStorage\<close> and of \<^verbatim>\<open>insertIframe\<close>.
\<close>

section \<open>The client: sending\<close>

definition makeGuid :: "client \<Rightarrow> string \<times> client" where
  "makeGuid s = (CHR ''c'' # entropy s (draws s), s\<lparr>draws := Suc (draws s)\<rparr>)"

definition sendMessage ::
  "window \<Rightarrow> jsval \<Rightarrow> string \<Rightarrow> 'a endpoint_scheme \<Rightarrow> 'a endpoint_scheme" where
  "sendMessage w message origin s =
     s\<lparr>posted := posted s @ [(w, JSON_stringify message, origin)]\<rparr>"

definition register :: "string \<Rightarrow> handler \<Rightarrow> client \<Rightarrow> client" where
  "register ref cb s = s\<lparr>callbacks := (callbacks s)(ref \<mapsto> Completion cb)\<rparr>"

definition warn :: "string \<Rightarrow> client \<Rightarrow> client" where
  "warn t s = s\<lparr>console := console s @ [ConsoleWarn t]\<rparr>"

definition save :: "window \<Rightarrow> string \<Rightarrow> jsval \<Rightarrow> jsval \<Rightarrow> handler option \<Rightarrow> client \<Rightarrow> client" where
  "save w origin k v cb s =
     (let (ref, s1) = makeGuid s;
          s2 = (case cb of Some h \<Rightarrow> register ref h s1 | None \<Rightarrow> s1)
      in sendMessage w
           (Obj [(''action'', Str ''setItem''), (''ref'', Str ref), (''key'', k), (''value'', v)])
           origin s2)"

definition load :: "window \<Rightarrow> string \<Rightarrow> jsval \<Rightarrow> handler option \<Rightarrow> client \<Rightarrow> client" where
  "load w origin k cb s =
     (let (ref, s1) = makeGuid s;
          s2 = (case cb of Some h \<Rightarrow> register ref h s1
                | None \<Rightarrow> warn ''FrameStorage.getItem: Missing callback function'' s1)
      in sendMessage w
           (Obj [(''action'', Str ''getItem''), (''ref'', Str ref), (''key'', k)])
           origin s2)"

definition empty :: "window \<Rightarrow> string \<Rightarrow> handler option \<Rightarrow> client \<Rightarrow> client" where
  "empty w origin cb s =
     (let (ref, s1) = makeGuid s;
          s2 = (case cb of Some h \<Rightarrow> register ref h s1
                | None \<Rightarrow> warn ''FrameStorage.clear: Missing callback function'' s1)
      in sendMessage w
           (Obj [(''action'', Str ''clear''), (''ref'', Str ref)])
           origin s2)"

definition count :: "window \<Rightarrow> string \<Rightarrow> handler option \<Rightarrow> client \<Rightarrow> client" where
  "count w origin cb s =
     (let (ref, s1) = makeGuid s;
          s2 = (case cb of Some h \<Rightarrow> register ref h s1
                | None \<Rightarrow> warn ''FrameStorage.length: Missing callback function'' s1)
      in sendMessage w
           (Obj [(''action'', Str ''length''), (''ref'', Str ref)])
           origin s2)"

definition key :: "window \<Rightarrow> string \<Rightarrow> jsval \<Rightarrow> handler option \<Rightarrow> client \<Rightarrow> client" where
  "key w origin v cb s =
     (let (ref, s1) = makeGuid s;
          s2 = (case cb of Some h \<Rightarrow> register ref h s1 | None \<Rightarrow> s1)
      in sendMessage w
           (Obj [(''action'', Str ''key''), (''ref'', Str ref), (''value'', v)])
           origin s2)"

section \<open>The client: construction, readiness, the public operations\<close>

text \<open>
  The regular expression \<^verbatim>\<open>/^(https?:\/\/[a-z0-9-.:@]+)\/?/i\<close> of the constructor.
  \<open>match_origin\<close> gives its first group, or \<open>None\<close> where the expression does not
  match.
\<close>

definition lower :: "char \<Rightarrow> char" where
  "lower c =
     (let n = (of_char c :: nat) in if 65 \<le> n \<and> n \<le> 90 then char_of (n + 32) else c)"

definition host_char :: "char \<Rightarrow> bool" where
  "host_char c =
     (let n = (of_char (lower c) :: nat)
      in (97 \<le> n \<and> n \<le> 122) \<or> (48 \<le> n \<and> n \<le> 57)
         \<or> c = CHR ''-'' \<or> c = CHR ''.'' \<or> c = CHR '':'' \<or> c = CHR ''@'')"

definition scheme_length :: "string \<Rightarrow> nat option" where
  "scheme_length url =
     (if map lower (take 8 url) = ''https://'' then Some 8
      else if map lower (take 7 url) = ''http://'' then Some 7
      else None)"

definition match_origin :: "string \<Rightarrow> string option" where
  "match_origin url =
     (case scheme_length url of
        None \<Rightarrow> None
      | Some n \<Rightarrow>
          (let h = takeWhile host_char (drop n url)
           in if h = [] then None else Some (take n url @ h)))"

record page =
  location_protocol :: string
  location_host :: string
  frame_window :: window
  random :: "nat \<Rightarrow> string"

text \<open>
  \<^verbatim>\<open>FrameStorage(channelUrl)\<close> on a freshly loaded page, up to its \<^verbatim>\<open>return\<close>:
  the root element gets the first guid and is appended to the body;
  \<^verbatim>\<open>insertIframe\<close> draws three more guids, stores its onload function under the last
  and sets \<^verbatim>\<open>srcSet\<close>.
\<close>

definition FrameStorage :: "page \<Rightarrow> string \<Rightarrow> client" where
  "FrameStorage p channelUrl =
     (let rootId = ''framestorage-'' @ CHR ''c'' # random p 0;
          origin = location_protocol p @ ''//'' @ location_host p;
          guid = CHR ''c'' # random p 3
      in \<lparr> posted = [],
           console = [],
           callbacks = [guid \<mapsto> IframeOnload],
           entropy = random p,
           draws = 4,
           body = [rootId],
           listeners = [],
           calls = [],
           root = Some rootId,
           buffer = [],
           targetWindow = None,
           boundMessageEventHandler = None,
           boundSave = None,
           boundLoad = None,
           boundEmpty = None,
           boundCount = None,
           boundKey = None,
           channelOrigin = (case match_origin channelUrl of Some m \<Rightarrow> m | None \<Rightarrow> origin),
           contentWindow = frame_window p,
           srcSet = True,
           onloadDone = False \<rparr>)"

text \<open>One round of the \<^verbatim>\<open>buffer.forEach\<close> of the onload function.\<close>

definition replay :: "item \<Rightarrow> client \<Rightarrow> client" where
  "replay it s =
     (case it of
        Save k v cb \<Rightarrow> (case boundSave s of Some (w, origin) \<Rightarrow> save w origin k v cb s | None \<Rightarrow> s)
      | Load k cb \<Rightarrow> (case boundLoad s of Some (w, origin) \<Rightarrow> load w origin k cb s | None \<Rightarrow> s)
      | Empty cb \<Rightarrow> (case boundEmpty s of Some (w, origin) \<Rightarrow> empty w origin cb s | None \<Rightarrow> s)
      | Count cb \<Rightarrow> (case boundCount s of Some (w, origin) \<Rightarrow> count w origin cb s | None \<Rightarrow> s)
      | Key v cb \<Rightarrow> (case boundKey s of Some (w, origin) \<Rightarrow> key w origin v cb s | None \<Rightarrow> s))"

text \<open>The \<^verbatim>\<open>onload\<close> function handed to \<^verbatim>\<open>insertIframe\<close>.\<close>

definition onload :: "client \<Rightarrow> client" where
  "onload s =
     (let w = contentWindow s;
          s1 = s\<lparr> targetWindow := Some w,
                  boundMessageEventHandler := Some w,
                  boundSave := Some (w, channelOrigin s),
                  boundLoad := Some (w, channelOrigin s),
                  boundEmpty := Some (w, channelOrigin s),
                  boundCount := Some (w, channelOrigin s),
                  boundKey := Some (w, channelOrigin s),
                  listeners := listeners s @ [w] \<rparr>;
          s2 = fold replay (buffer s1) s1
      in s2\<lparr>buffer := []\<rparr>)"

text \<open>
  The function stored in the registry by \<^verbatim>\<open>insertIframe\<close>: the load event of the
  iframe calls it, and it runs \<^verbatim>\<open>onload\<close> once.
\<close>

definition iframe_onload :: "client \<Rightarrow> client" where
  "iframe_onload s =
     (if srcSet s \<and> \<not> onloadDone s then onload (s\<lparr>onloadDone := True\<rparr>) else s)"

definition getItem :: "jsval \<Rightarrow> handler option \<Rightarrow> client \<Rightarrow> client" where
  "getItem k cb s =
     (case boundLoad s of
        Some (w, origin) \<Rightarrow> load w origin k cb s
      | None \<Rightarrow> s\<lparr>buffer := buffer s @ [Load k cb]\<rparr>)"

definition setItem :: "jsval \<Rightarrow> jsval \<Rightarrow> handler option \<Rightarrow> client \<Rightarrow> client" where
  "setItem k v cb s =
     (case boundSave s of
        Some (w, origin) \<Rightarrow> save w origin k v cb s
      | None \<Rightarrow> s\<lparr>buffer := buffer s @ [Save k v cb]\<rparr>)"

definition clear :: "handler option \<Rightarrow> client \<Rightarrow> client" where
  "clear cb s =
     (case boundEmpty s of
        Some (w, origin) \<Rightarrow> empty w origin cb s
      | None \<Rightarrow> s\<lparr>buffer := buffer s @ [Empty cb]\<rparr>)"

definition length_op :: "handler option \<Rightarrow> client \<Rightarrow> client" where
  "length_op cb s =
     (case boundCount s of
        Some (w, origin) \<Rightarrow> count w origin cb s
      | None \<Rightarrow> s\<lparr>buffer := buffer s @ [Count cb]\<rparr>)"

definition key_op :: "jsval \<Rightarrow> handler option \<Rightarrow> client \<Rightarrow> client" where
  "key_op v cb s =
     (case boundKey s of
        Some (w, origin) \<Rightarrow> key w origin v cb s
      | None \<Rightarrow> s\<lparr>buffer := buffer s @ [Key v cb]\<rparr>)"

text \<open>
  \<^verbatim>\<open>destroy\<close>: \<^verbatim>\<open>removeChild\<close> throws a NotFoundError when the root is not a child
  of the body, and then nothing after it is executed.
\<close>

definition destroy :: "client \<Rightarrow> client outcome" where
  "destroy s =
     (case (case root s of
              Some r \<Rightarrow>
                if r \<in> set (body s)
                then Returned (s\<lparr>body := remove1 r (body s), root := None\<rparr>)
                else Threw NotFoundError s
            | None \<Rightarrow> Returned s) of
        Threw e s1 \<Rightarrow> Threw e s1
      | Returned s1 \<Rightarrow>
          (let s2 = (case targetWindow s1 of
                       Some w \<Rightarrow>
                         s1\<lparr> listeners :=
                               (case boundMessageEventHandler s1 of
                                  Some l \<Rightarrow> remove1 l (listeners s1)
                                | None \<Rightarrow> listeners s1),
                             targetWindow := None \<rparr>
                     | None \<Rightarrow> s1)
           in Returned (s2\<lparr> boundMessageEventHandler := None,
                            boundSave := None,
                            boundLoad := None \<rparr>)))"

section \<open>The client: receiving\<close>

text \<open>
  \<^verbatim>\<open>FrameStorage._callbacks\<close> is an object literal, so reading a property that it
  does not have itself finds the properties of \<^verbatim>\<open>Object.prototype\<close>. They are
  called here with \<^verbatim>\<open>this\<close> undefined: \<^verbatim>\<open>constructor\<close> and \<^verbatim>\<open>toString\<close>
  return, \<^verbatim>\<open>isPrototypeOf\<close> returns unless its argument is an object, the others
  throw a TypeError (and \<^verbatim>\<open>__proto__\<close> is not a function):
  \<open>prototype_call_throws\<close>.
\<close>

definition Object_prototype :: "string list" where
  "Object_prototype =
     [''constructor'', ''toString'', ''toLocaleString'', ''valueOf'', ''hasOwnProperty'',
      ''isPrototypeOf'', ''propertyIsEnumerable'', ''__defineGetter__'', ''__defineSetter__'',
      ''__lookupGetter__'', ''__lookupSetter__'', ''__proto__'']"

datatype callee = Registered callback | Inherited string | Noop

definition lookup_callback :: "(string \<rightharpoonup> callback) \<Rightarrow> string \<Rightarrow> callee" where
  "lookup_callback reg name =
     (case reg name of
        Some cb \<Rightarrow> Registered cb
      | None \<Rightarrow> if name \<in> set Object_prototype then Inherited name else Noop)"

fun is_object :: "jsval \<Rightarrow> bool" where
  "is_object (Arr xs) = True"
| "is_object (Obj fs) = True"
| "is_object v = False"

definition prototype_call_throws :: "string \<Rightarrow> jsval \<Rightarrow> bool" where
  "prototype_call_throws name a =
     (\<not> (name = ''constructor'' \<or> name = ''toString''
         \<or> (name = ''isPrototypeOf'' \<and> \<not> is_object a)))"

definition call_callback :: "callee \<Rightarrow> jsval \<Rightarrow> jsval \<Rightarrow> client \<Rightarrow> client outcome" where
  "call_callback f a b s =
     (case f of
        Registered (Completion h) \<Rightarrow>
          (let s1 = s\<lparr>calls := calls s @ [(hid h, a, b)]\<rparr>
           in case hthrows h a b of None \<Rightarrow> Returned s1 | Some e \<Rightarrow> Threw e s1)
      | Registered IframeOnload \<Rightarrow> Returned (iframe_onload s)
      | Inherited name \<Rightarrow>
          if prototype_call_throws name a then Threw TypeError s else Returned s
      | Noop \<Rightarrow> Returned s)"

text \<open>
  The listener. The conversion of \<^verbatim>\<open>message.ref\<close> to a property key at the lookup
  can throw; where it does not, the \<^verbatim>\<open>delete\<close> at the end uses the same key.
\<close>

definition handleMessageEvent :: "window \<Rightarrow> msg_event \<Rightarrow> client \<Rightarrow> client outcome" where
  "handleMessageEvent w event s =
     (if ev_source event = w then
        (case JSON_parse (ev_data event) of
           Inl e \<Rightarrow> Threw e s
         | Inr message \<Rightarrow>
             if nullish message then Threw TypeError s
             else
               (case ToString (get_prop message ''ref'') of
                  None \<Rightarrow> Threw TypeError s
                | Some k \<Rightarrow>
                    (let callback = lookup_callback (callbacks s) k
                     in case (if get_prop message ''action'' = Str ''frameStorageSuccess''
                              then call_callback callback Null (get_prop message ''value'') s
                              else if get_prop message ''action'' = Str ''frameStorageError''
                              then call_callback callback (get_prop message ''message'') Null s
                              else Returned (s\<lparr>console := console s @ [ConsoleError ''Unknown action'']\<rparr>)) of
                          Threw e s1 \<Rightarrow> Threw e s1
                        | Returned s1 \<Rightarrow>
                            Returned (s1\<lparr>callbacks := (callbacks s1)(k := None)\<rparr>))))
      else Returned s)"

text \<open>
  The page receives a message event: every listener registered when the event arrives is
  called; an exception leaving a listener is reported by the browser and does not stop
  the others.
\<close>

definition window_message :: "msg_event \<Rightarrow> client \<Rightarrow> client" where
  "window_message event s =
     fold (\<lambda>w t. state_of (handleMessageEvent w event t)) (listeners s) s"

section \<open>The client: runs\<close>

datatype call =
    GetItem jsval "handler option"
  | SetItem jsval jsval "handler option"
  | Clear "handler option"
  | Length "handler option"
  | KeyAt jsval "handler option"

fun invoke :: "call \<Rightarrow> client \<Rightarrow> client" where
  "invoke (GetItem k cb) s = getItem k cb s"
| "invoke (SetItem k v cb) s = setItem k v cb s"
| "invoke (Clear cb) s = clear cb s"
| "invoke (Length cb) s = length_op cb s"
| "invoke (KeyAt v cb) s = key_op v cb s"

datatype event = Call call | Destroy | IframeLoad | Message msg_event

fun step :: "event \<Rightarrow> client \<Rightarrow> client" where
  "step (Call c) s = invoke c s"
| "step Destroy s = state_of (destroy s)"
| "step IframeLoad s = iframe_onload s"
| "step (Message m) s = window_message m s"

definition run :: "event list \<Rightarrow> client \<Rightarrow> client" where
  "run es s = fold step es s"

section \<open>The server: \<^verbatim>\<open>initChannel\<close>\<close>

text \<open>
  \<^verbatim>\<open>localStorage\<close> is an object of the platform. The dispatcher is modelled for any
  object with the six members it uses: each takes the state \<open>'b\<close> of the storage
  area and either throws an error, of which the dispatcher reads the \<^verbatim>\<open>message\<close>
  (\<open>Inl\<close>), or returns.
\<close>

record 'b storage_api =
  ls_getItem :: "jsval \<Rightarrow> 'b \<Rightarrow> string + jsval"
  ls_setItem :: "jsval \<Rightarrow> jsval \<Rightarrow> 'b \<Rightarrow> string + 'b"
  ls_removeItem :: "jsval \<Rightarrow> 'b \<Rightarrow> string + 'b"
  ls_clear :: "'b \<Rightarrow> string + 'b"
  ls_length :: "'b \<Rightarrow> string + jsval"
  ls_key :: "jsval \<Rightarrow> 'b \<Rightarrow> string + jsval"

record 'b server = endpoint +
  localStorage :: 'b

definition sendSuccess ::
  "msg_event \<Rightarrow> jsval \<Rightarrow> string \<Rightarrow> jsval \<Rightarrow> 'b server \<Rightarrow> 'b server" where
  "sendSuccess event message clientOrigin v s =
     sendMessage (ev_source event)
       (Obj [(''action'', Str ''frameStorageSuccess''), (''ref'', get_prop message ''ref''),
             (''key'', get_prop message ''key''), (''value'', v)])
       clientOrigin s"

definition sendError ::
  "msg_event \<Rightarrow> jsval \<Rightarrow> string \<Rightarrow> string \<Rightarrow> 'b server \<Rightarrow> 'b server" where
  "sendError event message clientOrigin error_message s =
     sendMessage (ev_source event)
       (Obj [(''action'', Str ''frameStorageError''), (''ref'', get_prop message ''ref''),
             (''key'', get_prop message ''key''), (''message'', Str error_message)])
       clientOrigin s"

text \<open>The body of the listener after the origin check.\<close>

definition dispatch ::
  "'b storage_api \<Rightarrow> string \<Rightarrow> msg_event \<Rightarrow> 'b server \<Rightarrow> 'b server outcome" where
  "dispatch L clientOrigin event s =
     (case JSON_parse (ev_data event) of
        Inl e \<Rightarrow> Threw e s
      | Inr message \<Rightarrow>
          if nullish message then Threw TypeError s
          else if get_prop message ''action'' = Str ''getItem'' then
            (case ls_getItem L (get_prop message ''key'') (localStorage s) of
               Inr v \<Rightarrow> Returned (sendSuccess event message clientOrigin v s)
             | Inl err \<Rightarrow> Returned (sendError event message clientOrigin err s))
          else if get_prop message ''action'' = Str ''setItem'' then
            (case ls_setItem L (get_prop message ''key'') (get_prop message ''value'')
                    (localStorage s) of
               Inr st \<Rightarrow>
                 Returned (sendSuccess event message clientOrigin Null (s\<lparr>localStorage := st\<rparr>))
             | Inl err \<Rightarrow> Returned (sendError event message clientOrigin err s))
          else if get_prop message ''action'' = Str ''removeItem'' then
            (case ls_removeItem L (get_prop message ''key'') (localStorage s) of
               Inr st \<Rightarrow>
                 Returned (sendSuccess event message clientOrigin Null (s\<lparr>localStorage := st\<rparr>))
             | Inl err \<Rightarrow> Returned (sendError event message clientOrigin err s))
          else if get_prop message ''action'' = Str ''clear'' then
            (case ls_clear L (localStorage s) of
               Inr st \<Rightarrow>
                 Returned (sendSuccess event message clientOrigin Undefined
                             (s\<lparr>localStorage := st\<rparr>))
             | Inl err \<Rightarrow> Returned (sendError event message clientOrigin err s))
          else if get_prop message ''action'' = Str ''length'' then
            (case ls_length L (localStorage s) of
               Inr n \<Rightarrow> Returned (sendSuccess event message clientOrigin n s)
             | Inl err \<Rightarrow> Returned (sendError event message clientOrigin err s))
          else if get_prop message ''action'' = Str ''key'' then
            (case ls_key L (get_prop message ''value'') (localStorage s) of
               Inr name \<Rightarrow> Returned (sendSuccess event message clientOrigin name s)
             | Inl err \<Rightarrow> Returned (sendError event message clientOrigin err s))
          else Returned (s\<lparr>console := console s @ [ConsoleError ''Unknown action'']\<rparr>))"

definition listener ::
  "'b storage_api \<Rightarrow> string \<Rightarrow> msg_event \<Rightarrow> 'b server \<Rightarrow> 'b server outcome" where
  "listener L clientOrigin event s =
     (if clientOrigin \<noteq> ''*'' \<and> ev_origin event \<noteq> clientOrigin
      then Returned (s\<lparr>console := console s @ [ConsoleError ''Origin mismatch'']\<rparr>)
      else dispatch L clientOrigin event s)"

text \<open>
  \<^verbatim>\<open>initChannel(clientOrigin)\<close> gives the listener it installs; \<open>None\<close> is an
  argument that is null or left out.
\<close>

definition initChannel ::
  "'b storage_api \<Rightarrow> string option \<Rightarrow> msg_event \<Rightarrow> 'b server \<Rightarrow> 'b server outcome" where
  "initChannel L clientOrigin =
     listener L (case clientOrigin of None \<Rightarrow> ''*'' | Some origin \<Rightarrow> origin)"

section \<open>The storage area of the browser\<close>

text \<open>
  The Web Storage semantics of \<^verbatim>\<open>localStorage\<close>: an ordered list of pairs of strings.
  Keys and values are converted to strings, and where the conversion throws, the
  operation throws its TypeError (with the message \<open>type_message\<close>);
  \<^verbatim>\<open>setItem\<close> throws (an error with the message \<open>quota_message\<close>) when the pairs
  would take more than \<open>capacity\<close> characters. The conversion of the argument of
  \<^verbatim>\<open>key\<close> to an index, which can throw as well, is the parameter \<open>to_index\<close>.
\<close>

type_synonym storage_area = "(string \<times> string) list"

definition area_size :: "storage_area \<Rightarrow> nat" where
  "area_size st = sum_list (map (\<lambda>(k, v). length k + length v) st)"

fun area_set :: "string \<Rightarrow> string \<Rightarrow> storage_area \<Rightarrow> storage_area" where
  "area_set k v [] = [(k, v)]"
| "area_set k v ((k', v') # st) =
     (if k' = k then (k, v) # st else (k', v') # area_set k v st)"

definition web_storage ::
  "nat \<Rightarrow> string \<Rightarrow> string \<Rightarrow> (jsval \<Rightarrow> string + nat) \<Rightarrow> storage_area storage_api" where
  "web_storage capacity quota_message type_message to_index =
     \<lparr> ls_getItem = (\<lambda>k st.
          case ToString k of
            None \<Rightarrow> Inl type_message
          | Some name \<Rightarrow> Inr (case map_of st name of None \<Rightarrow> Null | Some v \<Rightarrow> Str v)),
       ls_setItem = (\<lambda>k v st.
          case ToString k of
            None \<Rightarrow> Inl type_message
          | Some name \<Rightarrow>
              (case ToString v of
                 None \<Rightarrow> Inl type_message
               | Some val \<Rightarrow>
                   if area_size (area_set name val st) \<le> capacity
                   then Inr (area_set name val st) else Inl quota_message)),
       ls_removeItem = (\<lambda>k st.
          case ToString k of
            None \<Rightarrow> Inl type_message
          | Some name \<Rightarrow> Inr (filter (\<lambda>(k', v). k' \<noteq> name) st)),
       ls_clear = (\<lambda>st. Inr []),
       ls_length = (\<lambda>st. Inr (Num (show_nat (length st)))),
       ls_key = (\<lambda>n st.
          case to_index n of
            Inl err \<Rightarrow> Inl err
          | Inr i \<Rightarrow> Inr (if i < length st then Str (fst (st ! i)) else Null)) \<rparr>"

section \<open>The transport between the page and the frame\<close>

text \<open>
  \<^verbatim>\<open>postMessage(data, targetOrigin)\<close> delivers to the target window when the target
  origin is the wildcard or the origin of that window. The event carries the origin and
  the window of the sender.
\<close>

record link =
  page_origin :: string
  page_window :: window
  frame_origin :: string

definition serve ::
  "'b storage_api \<Rightarrow> string \<Rightarrow> link \<Rightarrow> window \<Rightarrow> (window \<times> wire \<times> string) list
     \<Rightarrow> 'b server \<Rightarrow> 'b server" where
  "serve L clientOrigin lk frame requests s =
     fold (\<lambda>(w, d, origin) t.
             if w = frame \<and> (origin = ''*'' \<or> origin = frame_origin lk)
             then state_of (listener L clientOrigin
                    \<lparr>ev_origin = page_origin lk, ev_data = d, ev_source = page_window lk\<rparr> t)
             else t)
       requests s"

definition receive ::
  "link \<Rightarrow> window \<Rightarrow> (window \<times> wire \<times> string) list \<Rightarrow> client \<Rightarrow> client" where
  "receive lk frame responses c =
     fold (\<lambda>(w, d, origin) t.
             if w = page_window lk \<and> (origin = ''*'' \<or> origin = page_origin lk)
             then window_message
                    \<lparr>ev_origin = frame_origin lk, ev_data = d, ev_source = frame\<rparr> t
             else t)
       responses c"

section \<open>Notions used in the statements\<close>

text \<open>
  Before the iframe has loaded none of the five bound functions exists (\<open>unbound\<close>);
  the onload function creates all five for one window and one origin (\<open>ready_for\<close>).
  \<open>item_of\<close> is the buffer entry a public operation pushes, \<open>envelope\<close> the
  object it sends when it is given the guid \<open>ref\<close>, and \<open>envelopes\<close> the objects
  a sequence of operations sends when the random source is at its \<open>n\<close>-th draw.
  \<open>bindings\<close> are the assignments at the start of the onload function.
\<close>

definition unbound :: "client \<Rightarrow> bool" where
  "unbound s = (boundSave s = None \<and> boundLoad s = None \<and> boundEmpty s = None
                \<and> boundCount s = None \<and> boundKey s = None)"

definition ready_for :: "window \<Rightarrow> string \<Rightarrow> client \<Rightarrow> bool" where
  "ready_for w origin s =
     (boundSave s = Some (w, origin) \<and> boundLoad s = Some (w, origin)
      \<and> boundEmpty s = Some (w, origin) \<and> boundCount s = Some (w, origin)
      \<and> boundKey s = Some (w, origin))"

fun item_of :: "call \<Rightarrow> item" where
  "item_of (GetItem k cb) = Load k cb"
| "item_of (SetItem k v cb) = Save k v cb"
| "item_of (Clear cb) = Empty cb"
| "item_of (Length cb) = Count cb"
| "item_of (KeyAt v cb) = Key v cb"

definition bindings :: "client \<Rightarrow> client" where
  "bindings s =
     s\<lparr> targetWindow := Some (contentWindow s),
        boundMessageEventHandler := Some (contentWindow s),
        boundSave := Some (contentWindow s, channelOrigin s),
        boundLoad := Some (contentWindow s, channelOrigin s),
        boundEmpty := Some (contentWindow s, channelOrigin s),
        boundCount := Some (contentWindow s, channelOrigin s),
        boundKey := Some (contentWindow s, channelOrigin s),
        listeners := listeners s @ [contentWindow s] \<rparr>"

fun envelope :: "call \<Rightarrow> string \<Rightarrow> jsval" where
  "envelope (GetItem k cb) ref =
     Obj [(''action'', Str ''getItem''), (''ref'', Str ref), (''key'', k)]"
| "envelope (SetItem k v cb) ref =
     Obj [(''action'', Str ''setItem''), (''ref'', Str ref), (''key'', k), (''value'', v)]"
| "envelope (Clear cb) ref = Obj [(''action'', Str ''clear''), (''ref'', Str ref)]"
| "envelope (Length cb) ref = Obj [(''action'', Str ''length''), (''ref'', Str ref)]"
| "envelope (KeyAt v cb) ref =
     Obj [(''action'', Str ''key''), (''ref'', Str ref), (''value'', v)]"

fun envelopes :: "(nat \<Rightarrow> string) \<Rightarrow> nat \<Rightarrow> call list \<Rightarrow> jsval list" where
  "envelopes rnd n [] = []"
| "envelopes rnd n (c # cs) = envelope c (CHR ''c'' # rnd n) # envelopes rnd (Suc n) cs"




text \<open>A message is a response envelope when its action is one of the two the server sends.\<close>

definition is_response :: "jsval \<Rightarrow> bool" where
  "is_response message =
     (get_prop message ''action'' = Str ''frameStorageSuccess''
      \<or> get_prop message ''action'' = Str ''frameStorageError'')"


text \<open>
  \<open>backend_call\<close> is the operation of the storage object that the action of a
  request names, with what it gives: the message of the error it throws, or the value
  that is sent back and the state of the storage area afterwards; \<open>None\<close> for an
  action outside the vocabulary. \<open>success_envelope\<close> and \<open>error_envelope\<close> are
  the two objects the dispatcher answers with.
\<close>

definition backend_call :: "'b storage_api \<Rightarrow> jsval \<Rightarrow> 'b \<Rightarrow> (string + jsval \<times> 'b) option" where
  "backend_call L message st =
     (if get_prop message ''action'' = Str ''getItem'' then
        Some (case ls_getItem L (get_prop message ''key'') st of
                Inl err \<Rightarrow> Inl err | Inr v \<Rightarrow> Inr (v, st))
      else if get_prop message ''action'' = Str ''setItem'' then
        Some (case ls_setItem L (get_prop message ''key'') (get_prop message ''value'') st of
                Inl err \<Rightarrow> Inl err | Inr st' \<Rightarrow> Inr (Null, st'))
      else if get_prop message ''action'' = Str ''removeItem'' then
        Some (case ls_removeItem L (get_prop message ''key'') st of
                Inl err \<Rightarrow> Inl err | Inr st' \<Rightarrow> Inr (Null, st'))
      else if get_prop message ''action'' = Str ''clear'' then
        Some (case ls_clear L st of Inl err \<Rightarrow> Inl err | Inr st' \<Rightarrow> Inr (Undefined, st'))
      else if get_prop message ''action'' = Str ''length'' then
        Some (case ls_length L st of Inl err \<Rightarrow> Inl err | Inr n \<Rightarrow> Inr (n, st))
      else if get_prop message ''action'' = Str ''key'' then
        Some (case ls_key L (get_prop message ''value'') st of
                Inl err \<Rightarrow> Inl err | Inr name \<Rightarrow> Inr (name, st))
      else None)"

definition success_envelope :: "jsval \<Rightarrow> jsval \<Rightarrow> jsval" where
  "success_envelope message v =
     Obj [(''action'', Str ''frameStorageSuccess''), (''ref'', get_prop message ''ref''),
          (''key'', get_prop message ''key''), (''value'', v)]"

definition error_envelope :: "jsval \<Rightarrow> string \<Rightarrow> jsval" where
  "error_envelope message err =
     Obj [(''action'', Str ''frameStorageError''), (''ref'', get_prop message ''ref''),
          (''key'', get_prop message ''key''), (''message'', Str err)]"


text \<open>
  One exchange between the two ends: the client performs \<open>ops\<close>, the messages it
  posts meanwhile are delivered to the frame and handled by the dispatcher in the order
  in which they were posted, and the responses the dispatcher posts are delivered to the
  page and handled there in their order.
\<close>

definition round_trip ::
  "'b storage_api \<Rightarrow> string \<Rightarrow> link \<Rightarrow> (client \<Rightarrow> client) \<Rightarrow> client \<times> 'b server
     \<Rightarrow> client \<times> 'b server" where
  "round_trip L clientOrigin lk ops cs =
     (let c = fst cs; s = snd cs;
          c1 = ops c;
          s1 = serve L clientOrigin lk (contentWindow c) (drop (length (posted c)) (posted c1)) s;
          c2 = receive lk (contentWindow c) (drop (length (posted s)) (posted s1)) c1
      in (c2, s1))"


text \<open>
  The first argument the listener of the client gives to the callback of a response:
  null for a success, the message for an error.
\<close>

definition first_argument :: "jsval \<Rightarrow> jsval" where
  "first_argument message =
     (if get_prop message ''action'' = Str ''frameStorageSuccess''
      then Null else get_prop message ''message'')"

definition second_argument :: "jsval \<Rightarrow> jsval" where
  "second_argument message =
     (if get_prop message ''action'' = Str ''frameStorageSuccess''
      then get_prop message ''value'' else Null)"

section \<open>An invariant of the client\<close>

text \<open>
  \<open>closure_of\<close> forgets what sending a request changes: the messages posted, the
  console, the registry and the number of guids drawn. \<open>sound\<close> holds of every
  state the client can reach: every message posted is addressed to the channel origin,
  every bound function that exists is bound to the window of the iframe and to the
  channel origin, the root element is a child of the body for as long as the variable
  \<^verbatim>\<open>root\<close> holds it, the message listener is registered exactly while
  \<^verbatim>\<open>targetWindow\<close> is set, and no bound function exists before the onload function
  has run.
\<close>

definition closure_of :: "client \<Rightarrow> client" where
  "closure_of s = s\<lparr>posted := [], console := [], callbacks := Map.empty, draws := 0\<rparr>"

definition pinned :: "(window \<times> string) option \<Rightarrow> client \<Rightarrow> bool" where
  "pinned b s = (b = None \<or> b = Some (contentWindow s, channelOrigin s))"

definition closure_ok :: "client \<Rightarrow> bool" where
  "closure_ok s =
     (pinned (boundSave s) s \<and> pinned (boundLoad s) s \<and> pinned (boundEmpty s) s
      \<and> pinned (boundCount s) s \<and> pinned (boundKey s) s
      \<and> (case root s of None \<Rightarrow> True | Some r \<Rightarrow> r \<in> set (body s))
      \<and> (case targetWindow s of
            None \<Rightarrow> listeners s = []
          | Some w \<Rightarrow> boundMessageEventHandler s = Some w \<and> listeners s = [w] \<and> onloadDone s)
      \<and> (onloadDone s \<or> unbound s)
      \<and> srcSet s)"

definition posted_ok :: "client \<Rightarrow> bool" where
  "posted_ok s = (\<forall>m \<in> set (posted s). snd (snd m) = channelOrigin s)"

definition sound :: "client \<Rightarrow> bool" where
  "sound s = (posted_ok s \<and> closure_ok s)"


text \<open>What no step of the client changes.\<close>

definition static :: "client \<Rightarrow> string \<times> window \<times> (nat \<Rightarrow> string)" where
  "static s = (channelOrigin s, contentWindow s, entropy s)"


text \<open>
  A client is \<open>waiting\<close> until the onload function has run and \<open>live\<close> from then
  on, for as long as \<^verbatim>\<open>destroy\<close> is not called.
\<close>

definition live :: "client \<Rightarrow> bool" where
  "live s = (onloadDone s \<and> ready_for (contentWindow s) (channelOrigin s) s \<and> buffer s = [])"

definition waiting :: "client \<Rightarrow> bool" where
  "waiting s = (\<not> onloadDone s \<and> unbound s \<and> srcSet s)"


section \<open>Concrete inputs\<close>

text \<open>
  A page at \<^verbatim>\<open>https://app.example\<close> whose random source gives the guids
  \<^verbatim>\<open>c3c\<close> (to the constructor), \<^verbatim>\<open>c1a\<close>, \<^verbatim>\<open>c2b\<close> and then \<^verbatim>\<open>c3c\<close>
  again; two handlers that return and one that throws; a client on which one
  \<^verbatim>\<open>getItem\<close> is pending; and a message from the iframe.
\<close>

definition page0 :: page where
  "page0 = \<lparr> location_protocol = ''https:'', location_host = ''app.example'',
             frame_window = 1,
             random = (\<lambda>n. if n = 4 then ''1a'' else if n = 5 then ''2b'' else ''3c'') \<rparr>"

definition h1 :: handler where
  "h1 = Handler 1 (\<lambda>a b. None)"

definition h2 :: handler where
  "h2 = Handler 2 (\<lambda>a b. None)"

definition h3 :: handler where
  "h3 = Handler 3 (\<lambda>a b. Some (UserError ''boom''))"

definition pending :: "handler \<Rightarrow> client" where
  "pending h =
     run [IframeLoad, Call (GetItem (Str ''theme'') (Some h))]
       (FrameStorage page0 ''https://store.example/channel.html'')"

definition answer :: "string \<Rightarrow> string \<Rightarrow> msg_event" where
  "answer action ref =
     \<lparr> ev_origin = ''https://store.example'',
       ev_data = Json (Obj [(''action'', Str action), (''ref'', Str ref),
                            (''key'', Str ''theme''), (''value'', Str ''dark'')]),
       ev_source = 1 \<rparr>"


text \<open>
  A storage area of sixteen characters that holds one pair, the frame it lives in, and
  two requests from the page.
\<close>

definition storage0 :: "storage_area storage_api" where
  "storage0 =
     web_storage 16 ''The quota has been exceeded.'' ''Cannot convert object to primitive value''
       (\<lambda>v. Inr 0)"

definition server0 :: "storage_area server" where
  "server0 = \<lparr> posted = [], console = [], localStorage = [(''theme'', ''dark'')] \<rparr>"

definition request :: "string \<Rightarrow> wire \<Rightarrow> msg_event" where
  "request origin d = \<lparr> ev_origin = origin, ev_data = d, ev_source = 0 \<rparr>"

definition get_theme :: jsval where
  "get_theme = Obj [(''action'', Str ''getItem''), (''ref'', Str ''c1a''), (''key'', Str ''theme'')]"

definition set_theme :: "string \<Rightarrow> jsval" where
  "set_theme v =
     Obj [(''action'', Str ''setItem''), (''ref'', Str ''c1a''), (''key'', Str ''theme''),
          (''value'', Str v)]"


text \<open>The client once its iframe has loaded, and the link between page and frame.\<close>

definition ready0 :: client where
  "ready0 = run [IframeLoad] (FrameStorage page0 ''https://store.example/channel.html'')"

definition link0 :: link where
  "link0 = \<lparr> page_origin = ''https://app.example'', page_window = 0,
             frame_origin = ''https://store.example'' \<rparr>"


section \<open>Buffered operations are replayed in order\<close>

lemmas send_defs = save_def load_def empty_def count_def key_def makeGuid_def sendMessage_def
  register_def warn_def

lemmas api_defs = getItem_def setItem_def clear_def length_op_def key_op_def

lemma invoke_unbound:
  "unbound s \<Longrightarrow> invoke c s = s\<lparr>buffer := buffer s @ [item_of c]\<rparr>"
  by (cases c) (simp_all add: unbound_def api_defs)

lemma fold_invoke_unbound:
  "unbound s \<Longrightarrow> fold invoke cs s = s\<lparr>buffer := buffer s @ map item_of cs\<rparr>"
proof (induction cs arbitrary: s)
  case Nil
  then show ?case by simp
next
  case (Cons c cs)
  have u: "unbound (s\<lparr>buffer := buffer s @ [item_of c]\<rparr>)"
    using Cons.prems by (simp add: unbound_def)
  show ?case
    by (simp add: invoke_unbound [OF Cons.prems] Cons.IH [OF u])
qed

lemma invoke_ready:
  "ready_for w origin s \<Longrightarrow> invoke c s = replay (item_of c) s"
  by (cases c) (simp_all add: ready_for_def api_defs replay_def)

lemma replay_buffer:
  "replay it (s\<lparr>buffer := b\<rparr>) = (replay it s)\<lparr>buffer := b\<rparr>"
  by (cases it) (simp_all add: replay_def send_defs split: option.splits prod.splits)

lemma replay_ready:
  "ready_for w origin s \<Longrightarrow> ready_for w origin (replay it s)"
  by (cases it) (simp_all add: replay_def send_defs ready_for_def split: option.splits)


lemma fold_replay_buffer:
  "fold replay xs (s\<lparr>buffer := b\<rparr>) = (fold replay xs s)\<lparr>buffer := b\<rparr>"
  by (induction xs arbitrary: s) (simp_all add: replay_buffer)

lemma fold_replay_ready:
  "ready_for w origin s \<Longrightarrow> ready_for w origin (fold replay xs s)"
  by (induction xs arbitrary: s) (simp_all add: replay_ready)

lemma fold_invoke_ready:
  "ready_for w origin s \<Longrightarrow> fold invoke cs s = fold replay (map item_of cs) s"
proof (induction cs arbitrary: s)
  case Nil
  then show ?case by simp
next
  case (Cons c cs)
  from Cons.prems have "ready_for w origin (replay (item_of c) s)"
    by (rule replay_ready)
  with Cons show ?case
    by (simp add: invoke_ready [OF Cons.prems])
qed

lemma onload_bindings:
  "onload s = (fold replay (buffer s) (bindings s))\<lparr>buffer := []\<rparr>"
  by (simp add: onload_def bindings_def Let_def)

lemma bindings_ready: "ready_for (contentWindow s) (channelOrigin s) (bindings s)"
  by (simp add: bindings_def ready_for_def)

lemma bindings_buffer: "bindings (s\<lparr>buffer := b\<rparr>) = (bindings s)\<lparr>buffer := b\<rparr>"
  by (simp add: bindings_def)

lemma onload_after_calls:
  assumes "unbound s"
  shows "onload (fold invoke cs s) = fold invoke cs (onload s)"
proof -
  let ?B = "bindings s"
  let ?T = "fold replay (buffer s) ?B"
  have r: "ready_for (contentWindow s) (channelOrigin s) (?T\<lparr>buffer := []\<rparr>)"
    using fold_replay_ready [OF bindings_ready, where xs = "buffer s" and s1 = s]
    by (simp add: ready_for_def)
  have "onload (fold invoke cs s) =
        (fold replay (buffer s @ map item_of cs) ?B)\<lparr>buffer := []\<rparr>"
    by (simp add: fold_invoke_unbound [OF assms] onload_bindings bindings_buffer
          fold_replay_buffer)
  also have "\<dots> = fold replay (map item_of cs) (?T\<lparr>buffer := []\<rparr>)"
    by (simp add: fold_replay_buffer)
  also have "\<dots> = fold invoke cs (onload s)"
    by (simp add: fold_invoke_ready [OF r] onload_bindings)
  finally show ?thesis .
qed


lemma invoke_ready_posted:
  assumes "ready_for w origin s"
  shows "posted (invoke c s) =
           posted s @ [(w, JSON_stringify (envelope c (CHR ''c'' # entropy s (draws s))), origin)]"
    and "draws (invoke c s) = Suc (draws s)"
    and "entropy (invoke c s) = entropy s"
    and "buffer (invoke c s) = buffer s"
    and "ready_for w origin (invoke c s)"
  using assms
  by (cases c; simp add: ready_for_def api_defs send_defs split: option.splits)+

lemma fold_invoke_ready_posted:
  "ready_for w origin s \<Longrightarrow>
   posted (fold invoke cs s) =
     posted s @ map (\<lambda>m. (w, JSON_stringify m, origin)) (envelopes (entropy s) (draws s) cs)
   \<and> buffer (fold invoke cs s) = buffer s
   \<and> ready_for w origin (fold invoke cs s)"
proof (induction cs arbitrary: s)
  case Nil
  then show ?case by simp
next
  case (Cons c cs)
  note r = invoke_ready_posted [OF Cons.prems, of c]
  from Cons.IH [OF r(5)] show ?case
    by (simp add: r)
qed

lemma run_calls: "run (map Call cs) s = fold invoke cs s"
  by (induction cs arbitrary: s) (simp_all add: run_def)

lemma run_append: "run (es @ fs) s = run fs (run es s)"
  by (simp add: run_def)

lemma run_Cons: "run (e # es) s = run es (step e s)"
  by (simp add: run_def)

lemma FrameStorage_unbound: "unbound (FrameStorage p url)"
  by (simp add: FrameStorage_def unbound_def Let_def)

lemma fold_invoke_unbound_flags:
  "unbound s \<Longrightarrow> srcSet (fold invoke cs s) = srcSet s
     \<and> onloadDone (fold invoke cs s) = onloadDone s"
  by (simp add: fold_invoke_unbound)

lemma unbound_onloadDone: "unbound s \<Longrightarrow> unbound (s\<lparr>onloadDone := b\<rparr>)"
  by (simp add: unbound_def)

lemma fold_invoke_onloadDone:
  "unbound s \<Longrightarrow>
   (fold invoke cs s)\<lparr>onloadDone := b\<rparr> = fold invoke cs (s\<lparr>onloadDone := b\<rparr>)"
  by (simp add: fold_invoke_unbound unbound_onloadDone)

lemma iframe_onload_after_calls:
  assumes "unbound s"
  shows "iframe_onload (fold invoke cs s) = fold invoke cs (iframe_onload s)"
proof -
  have c: "(srcSet (fold invoke cs s) \<and> \<not> onloadDone (fold invoke cs s))
             = (srcSet s \<and> \<not> onloadDone s)"
    by (simp add: fold_invoke_unbound_flags [OF assms])
  have "onload ((fold invoke cs s)\<lparr>onloadDone := True\<rparr>)
          = fold invoke cs (onload (s\<lparr>onloadDone := True\<rparr>))"
    by (simp only: fold_invoke_onloadDone [OF assms]
          onload_after_calls [OF unbound_onloadDone [OF assms]])
  then show ?thesis
    unfolding iframe_onload_def c by simp
qed

lemma FrameStorage_fields:
  "posted (FrameStorage p url) = []"
  "entropy (FrameStorage p url) = random p"
  "draws (FrameStorage p url) = 4"
  "contentWindow (FrameStorage p url) = frame_window p"
  "srcSet (FrameStorage p url)"
  "\<not> onloadDone (FrameStorage p url)"
  "buffer (FrameStorage p url) = []"
  by (simp_all add: FrameStorage_def Let_def)

lemma iframe_onload_fresh:
  assumes "srcSet s" "\<not> onloadDone s" "buffer s = []"
  shows "ready_for (contentWindow s) (channelOrigin s) (iframe_onload s)"
    and "posted (iframe_onload s) = posted s"
    and "entropy (iframe_onload s) = entropy s"
    and "draws (iframe_onload s) = draws s"
    and "buffer (iframe_onload s) = []"
  using assms by (simp_all add: iframe_onload_def onload_def ready_for_def Let_def)

text \<open>
  Claim C4. Operations issued before the iframe has loaded are buffered; when the load
  event arrives they are dispatched in the order in which they were issued, each as a
  direct call would have been, and before every operation issued afterwards: the run
  "operations \<open>cs\<close>, load, operations \<open>ds\<close>" ends in the same state as the run
  "load, operations \<open>cs\<close>, operations \<open>ds\<close>", and the messages posted are, in this
  order, the envelopes of \<open>cs\<close> and then those of \<open>ds\<close>, the \<open>i\<close>-th carrying the
  \<open>i\<close>-th guid drawn after construction.
\<close>

theorem buffered_operations_replayed_in_order:
  "run (map Call cs @ [IframeLoad] @ map Call ds) (FrameStorage p url)
     = run (IframeLoad # map Call (cs @ ds)) (FrameStorage p url)
   \<and> posted (run (map Call cs @ [IframeLoad] @ map Call ds) (FrameStorage p url))
     = map (\<lambda>m. (frame_window p, JSON_stringify m, channelOrigin (FrameStorage p url)))
         (envelopes (random p) 4 (cs @ ds))"
proof -
  let ?s = "FrameStorage p url"
  have eq: "run (map Call cs @ [IframeLoad] @ map Call ds) ?s
              = run (IframeLoad # map Call (cs @ ds)) ?s"
    by (simp add: run_append run_Cons run_calls
          iframe_onload_after_calls [OF FrameStorage_unbound] del: map_append)
  note f = iframe_onload_fresh [of ?s, simplified FrameStorage_fields, simplified]
  have "posted (fold invoke (cs @ ds) (iframe_onload ?s))
          = map (\<lambda>m. (frame_window p, JSON_stringify m, channelOrigin ?s))
              (envelopes (random p) 4 (cs @ ds))"
    using fold_invoke_ready_posted [OF f(1), of "cs @ ds"]
    by (simp add: f FrameStorage_fields del: fold_append)
  then show ?thesis
    unfolding eq by (simp add: run_Cons run_calls del: map_append fold_append)
qed

theorem buffered_operations_replayed_in_order_witness:
  "posted (run [Call (SetItem (Str ''theme'') (Str ''dark'') (Some h1)),
                Call (GetItem (Str ''theme'') (Some h2)),
                IframeLoad,
                Call (Length None)]
             (FrameStorage page0 ''https://store.example/channel.html''))
   = [(1, Json (Obj [(''action'', Str ''setItem''), (''ref'', Str ''c1a''),
                      (''key'', Str ''theme''), (''value'', Str ''dark'')]),
        ''https://store.example''),
      (1, Json (Obj [(''action'', Str ''getItem''), (''ref'', Str ''c2b''),
                      (''key'', Str ''theme'')]),
        ''https://store.example''),
      (1, Json (Obj [(''action'', Str ''length''), (''ref'', Str ''c3c'')]),
        ''https://store.example'')]"
  using buffered_operations_replayed_in_order
    [THEN conjunct2,
     of "[SetItem (Str ''theme'') (Str ''dark'') (Some h1), GetItem (Str ''theme'') (Some h2)]"
        "[Length None]" page0 "''https://store.example/channel.html''"]
  by (simp add: page0_def FrameStorage_def JSON_stringify_def match_origin_def
        scheme_length_def lower_def host_char_def Let_def)

section \<open>The concrete inputs evaluated\<close>

lemma page0_fields:
  "frame_window page0 = 1" "random page0 6 = ''3c''"
  "location_protocol page0 = ''https:''" "location_host page0 = ''app.example''"
  by (simp_all add: page0_def)

lemmas run_defs = run_def FrameStorage_def Let_def api_defs send_defs iframe_onload_def
  onload_def replay_def

lemma pending_fields:
  "callbacks (pending h) = [''c3c'' \<mapsto> IframeOnload, ''c1a'' \<mapsto> Completion h]"
  "calls (pending h) = []"
  "console (pending h) = []"
  "listeners (pending h) = [1]"
  by (simp_all add: pending_def run_defs page0_def)

lemma pending_handled:
  "handleMessageEvent 1 (answer ''frameStorageSuccess'' ''c1a'') (pending h) =
     (case hthrows h Null (Str ''dark'') of
        None \<Rightarrow> Returned ((pending h)\<lparr> calls := [(hid h, Null, Str ''dark'')],
                                       callbacks := [''c3c'' \<mapsto> IframeOnload] \<rparr>)
      | Some e \<Rightarrow> Threw e ((pending h)\<lparr> calls := [(hid h, Null, Str ''dark'')] \<rparr>))"
  by (simp add: handleMessageEvent_def answer_def JSON_parse_def Let_def pending_fields
        lookup_callback_def call_callback_def fun_upd_twist split: option.splits)


lemma storage0_calls:
  "backend_call storage0 get_theme (localStorage server0)
     = Some (Inr (Str ''dark'', [(''theme'', ''dark'')]))"
  "backend_call storage0 (set_theme ''solarized-light'') (localStorage server0)
     = Some (Inl ''The quota has been exceeded.'')"
  "backend_call storage0 (set_theme ''light'') (localStorage server0)
     = Some (Inr (Null, [(''theme'', ''light'')]))"
  by (simp_all add: backend_call_def storage0_def web_storage_def server0_def get_theme_def
        set_theme_def area_size_def)

lemma requests_are_json:
  "json_norm get_theme = get_theme" "\<not> nullish get_theme"
  "json_norm (set_theme v) = set_theme v" "\<not> nullish (set_theme v)"
  by (simp_all add: get_theme_def set_theme_def)


lemma ready0_fields:
  "contentWindow ready0 = 1"
  "channelOrigin ready0 = ''https://store.example''"
  "listeners ready0 = [1]"
  "calls ready0 = []"
  "draws ready0 = 4"
  "entropy ready0 4 = ''1a''"
  "entropy ready0 (Suc 4) = ''2b''"
  "ready_for 1 ''https://store.example'' ready0"
  by (simp_all add: ready0_def run_defs page0_def ready_for_def match_origin_def
        scheme_length_def lower_def host_char_def)


lemma handler_fields:
  "hid h1 = 1" "hthrows h1 a b = None" "hid h2 = 2" "hthrows h2 a b = None"
  "hid h3 = 3" "hthrows h3 a b = Some (UserError ''boom'')"
  by (simp_all add: h1_def h2_def h3_def)

section \<open>The invariant holds along every run\<close>

lemma closure_ok_closure_of: "closure_ok (closure_of s) = closure_ok s"
  by (simp add: closure_ok_def closure_of_def pinned_def unbound_def cong: option.case_cong)

lemma closure_ok_cong: "closure_of t = closure_of s \<Longrightarrow> closure_ok t = closure_ok s"
  by (metis closure_ok_closure_of)

lemma closure_of_fields:
  assumes "closure_of t = closure_of s"
  shows "channelOrigin t = channelOrigin s" and "contentWindow t = contentWindow s"
    and "buffer t = buffer s" and "calls t = calls s" and "onloadDone t = onloadDone s"
    and "listeners t = listeners s" and "targetWindow t = targetWindow s"
    and "entropy t = entropy s"
proof -
  have "channelOrigin (closure_of t) = channelOrigin (closure_of s)"
    "contentWindow (closure_of t) = contentWindow (closure_of s)"
    "buffer (closure_of t) = buffer (closure_of s)"
    "calls (closure_of t) = calls (closure_of s)"
    "onloadDone (closure_of t) = onloadDone (closure_of s)"
    "listeners (closure_of t) = listeners (closure_of s)"
    "targetWindow (closure_of t) = targetWindow (closure_of s)"
    "entropy (closure_of t) = entropy (closure_of s)"
    by (simp_all only: assms)
  then show "channelOrigin t = channelOrigin s" and "contentWindow t = contentWindow s"
    and "buffer t = buffer s" and "calls t = calls s" and "onloadDone t = onloadDone s"
    and "listeners t = listeners s" and "targetWindow t = targetWindow s"
    and "entropy t = entropy s"
    by (simp_all add: closure_of_def)
qed

lemma send_closure:
  "closure_of (save w origin k v cb s) = closure_of s"
  "closure_of (load w origin k cb s) = closure_of s"
  "closure_of (empty w origin cb s) = closure_of s"
  "closure_of (count w origin cb s) = closure_of s"
  "closure_of (key w origin v cb s) = closure_of s"
  by (simp_all add: send_defs closure_of_def split: option.splits)

lemma send_posted:
  "\<exists>d. posted (save w origin k v cb s) = posted s @ [(w, d, origin)]"
  "\<exists>d. posted (load w origin k cb s) = posted s @ [(w, d, origin)]"
  "\<exists>d. posted (empty w origin cb s) = posted s @ [(w, d, origin)]"
  "\<exists>d. posted (count w origin cb s) = posted s @ [(w, d, origin)]"
  "\<exists>d. posted (key w origin v cb s) = posted s @ [(w, d, origin)]"
  by (simp_all add: send_defs split: option.splits)


lemma posted_ok_append:
  assumes "posted_ok s" and "closure_of t = closure_of s"
    and "posted t = posted s @ [(w, d, channelOrigin s)]"
  shows "posted_ok t"
proof -
  have "channelOrigin t = channelOrigin s"
    using assms(2) by (rule closure_of_fields)
  with assms(1,3) show ?thesis
    by (simp add: posted_ok_def)
qed

lemma sound_sent:
  assumes "sound s" and "closure_of t = closure_of s"
    and "\<exists>d. posted t = posted s @ [(w, d, channelOrigin s)]"
  shows "sound t"
proof -
  from assms(3) obtain d where d: "posted t = posted s @ [(w, d, channelOrigin s)]" ..
  have "closure_ok t = closure_ok s"
    using assms(2) by (rule closure_ok_cong)
  moreover have "posted_ok t"
    using assms(1) posted_ok_append [OF _ assms(2) d] by (simp add: sound_def)
  ultimately show ?thesis
    using assms(1) by (simp add: sound_def)
qed

lemma pinnedD: "pinned b s \<Longrightarrow> b = Some (w, origin) \<Longrightarrow> origin = channelOrigin s"
  by (auto simp add: pinned_def)

lemma sound_replay: "sound s \<Longrightarrow> sound (replay it s)"
proof (cases it)
  case (Save k v cb)
  assume s: "sound s"
  show ?thesis
  proof (cases "boundSave s")
    case None
    with s Save show ?thesis by (simp add: replay_def)
  next
    case (Some b)
    obtain w origin where b: "b = (w, origin)" by (cases b)
    from s Some b have "origin = channelOrigin s"
      by (simp add: sound_def closure_ok_def pinned_def)
    with Some b Save sound_sent [OF s send_closure(1) send_posted(1)] show ?thesis
      by (simp add: replay_def)
  qed
next
  case (Load k cb)
  assume s: "sound s"
  show ?thesis
  proof (cases "boundLoad s")
    case None
    with s Load show ?thesis by (simp add: replay_def)
  next
    case (Some b)
    obtain w origin where b: "b = (w, origin)" by (cases b)
    from s Some b have "origin = channelOrigin s"
      by (simp add: sound_def closure_ok_def pinned_def)
    with Some b Load sound_sent [OF s send_closure(2) send_posted(2)] show ?thesis
      by (simp add: replay_def)
  qed
next
  case (Empty cb)
  assume s: "sound s"
  show ?thesis
  proof (cases "boundEmpty s")
    case None
    with s Empty show ?thesis by (simp add: replay_def)
  next
    case (Some b)
    obtain w origin where b: "b = (w, origin)" by (cases b)
    from s Some b have "origin = channelOrigin s"
      by (simp add: sound_def closure_ok_def pinned_def)
    with Some b Empty sound_sent [OF s send_closure(3) send_posted(3)] show ?thesis
      by (simp add: replay_def)
  qed
next
  case (Count cb)
  assume s: "sound s"
  show ?thesis
  proof (cases "boundCount s")
    case None
    with s Count show ?thesis by (simp add: replay_def)
  next
    case (Some b)
    obtain w origin where b: "b = (w, origin)" by (cases b)
    from s Some b have "origin = channelOrigin s"
      by (simp add: sound_def closure_ok_def pinned_def)
    with Some b Count sound_sent [OF s send_closure(4) send_posted(4)] show ?thesis
      by (simp add: replay_def)
  qed
next
  case (Key v cb)
  assume s: "sound s"
  show ?thesis
  proof (cases "boundKey s")
    case None
    with s Key show ?thesis by (simp add: replay_def)
  next
    case (Some b)
    obtain w origin where b: "b = (w, origin)" by (cases b)
    from s Some b have "origin = channelOrigin s"
      by (simp add: sound_def closure_ok_def pinned_def)
    with Some b Key sound_sent [OF s send_closure(5) send_posted(5)] show ?thesis
      by (simp add: replay_def)
  qed
qed

lemma sound_fold_replay: "sound s \<Longrightarrow> sound (fold replay xs s)"
  by (induction xs arbitrary: s) (simp_all add: sound_replay)

lemma sound_buffer: "sound (s\<lparr>buffer := b\<rparr>) = sound s"
  by (simp add: sound_def posted_ok_def closure_ok_def pinned_def unbound_def
        cong: option.case_cong)

lemma invoke_replay_or_push:
  "invoke c s = replay (item_of c) s \<or> invoke c s = s\<lparr>buffer := buffer s @ [item_of c]\<rparr>"
  by (cases c) (simp_all add: api_defs replay_def split: option.splits)

lemma sound_invoke: "sound s \<Longrightarrow> sound (invoke c s)"
proof -
  assume s: "sound s"
  from invoke_replay_or_push [of c s] show ?thesis
  proof
    assume "invoke c s = replay (item_of c) s"
    with s show ?thesis by (simp add: sound_replay)
  next
    assume "invoke c s = s\<lparr>buffer := buffer s @ [item_of c]\<rparr>"
    with s show ?thesis by (simp add: sound_buffer)
  qed
qed


lemma call_callback_preserves:
  assumes "P s"
    and "\<And>t x. P t \<Longrightarrow> P (t\<lparr>calls := x\<rparr>)"
    and "\<And>t. P t \<Longrightarrow> P (iframe_onload t)"
  shows "P (state_of (call_callback f a b s))"
proof (cases f)
  case (Registered cb)
  show ?thesis
  proof (cases cb)
    case (Completion h)
    with Registered assms(1,2) show ?thesis
      by (cases "hthrows h a b") (simp_all add: call_callback_def)
  next
    case IframeOnload
    with Registered assms(1,3) show ?thesis
      by (simp add: call_callback_def)
  qed
next
  case (Inherited name)
  with assms(1) show ?thesis by (simp add: call_callback_def)
next
  case Noop
  with assms(1) show ?thesis by (simp add: call_callback_def)
qed

lemma finish_preserves:
  assumes "P (state_of r)"
    and "\<And>t x. P t \<Longrightarrow> P (t\<lparr>callbacks := x\<rparr>)"
  shows "P (state_of (case r of Threw e s1 \<Rightarrow> Threw e s1
                      | Returned s1 \<Rightarrow> Returned (s1\<lparr>callbacks := g s1\<rparr>)))"
  using assms by (cases r) simp_all

lemma handleMessageEvent_keyed:
  assumes "ev_source event = w" and "ev_data event = Json message" and "\<not> nullish message"
    and "ToString (get_prop message ''ref'') = Some k"
  shows "handleMessageEvent w event s =
           (case (if get_prop message ''action'' = Str ''frameStorageSuccess''
                  then call_callback (lookup_callback (callbacks s) k) Null
                         (get_prop message ''value'') s
                  else if get_prop message ''action'' = Str ''frameStorageError''
                  then call_callback (lookup_callback (callbacks s) k)
                         (get_prop message ''message'') Null s
                  else Returned (s\<lparr>console := console s @ [ConsoleError ''Unknown action'']\<rparr>)) of
              Threw e s1 \<Rightarrow> Threw e s1
            | Returned s1 \<Rightarrow> Returned (s1\<lparr>callbacks := (callbacks s1)(k := None)\<rparr>))"
  using assms by (simp add: handleMessageEvent_def JSON_parse_def Let_def)

lemma handleMessageEvent_unkeyed:
  assumes "ev_source event = w" and "ev_data event = Json message" and "\<not> nullish message"
    and "ToString (get_prop message ''ref'') = None"
  shows "handleMessageEvent w event s = Threw TypeError s"
  using assms by (simp add: handleMessageEvent_def JSON_parse_def)

lemma handleMessageEvent_preserves:
  assumes P: "P s"
    and calls: "\<And>t x. P t \<Longrightarrow> P (t\<lparr>calls := x\<rparr>)"
    and callbacks: "\<And>t x. P t \<Longrightarrow> P (t\<lparr>callbacks := x\<rparr>)"
    and console: "\<And>t x. P t \<Longrightarrow> P (t\<lparr>console := x\<rparr>)"
    and onload: "\<And>t. P t \<Longrightarrow> P (iframe_onload t)"
  shows "P (state_of (handleMessageEvent w event s))"
proof (cases "ev_source event = w")
  case False
  with P show ?thesis by (simp add: handleMessageEvent_def)
next
  case True
  show ?thesis
  proof (cases "ev_data event")
    case (Garbage t)
    with True P show ?thesis by (simp add: handleMessageEvent_def JSON_parse_def)
  next
    case (Json message)
    show ?thesis
    proof (cases "nullish message")
      case True
      with \<open>ev_source event = w\<close> Json P show ?thesis
        by (simp add: handleMessageEvent_def JSON_parse_def)
    next
      case False
      show ?thesis
      proof (cases "ToString (get_prop message ''ref'')")
        case None
        with P show ?thesis
          by (simp add: handleMessageEvent_unkeyed [OF \<open>ev_source event = w\<close> Json False])
      next
        case (Some k)
        let ?f = "lookup_callback (callbacks s) k"
        let ?r = "if get_prop message ''action'' = Str ''frameStorageSuccess''
                  then call_callback ?f Null (get_prop message ''value'') s
                  else if get_prop message ''action'' = Str ''frameStorageError''
                  then call_callback ?f (get_prop message ''message'') Null s
                  else Returned (s\<lparr>console := console s @ [ConsoleError ''Unknown action'']\<rparr>)"
        have "P (state_of ?r)"
          using call_callback_preserves [of P s, OF P calls onload] console [OF P]
          by simp
        then have "P (state_of (case ?r of Threw e s1 \<Rightarrow> Threw e s1
                     | Returned s1 \<Rightarrow> Returned (s1\<lparr>callbacks := (callbacks s1)(k := None)\<rparr>)))"
          using callbacks by (rule finish_preserves)
        then show ?thesis
          by (simp add: handleMessageEvent_keyed [OF \<open>ev_source event = w\<close> Json False Some])
      qed
    qed
  qed
qed

lemma window_message_preserves:
  assumes P: "P s"
    and calls: "\<And>t x. P t \<Longrightarrow> P (t\<lparr>calls := x\<rparr>)"
    and callbacks: "\<And>t x. P t \<Longrightarrow> P (t\<lparr>callbacks := x\<rparr>)"
    and console: "\<And>t x. P t \<Longrightarrow> P (t\<lparr>console := x\<rparr>)"
    and onload: "\<And>t. P t \<Longrightarrow> P (iframe_onload t)"
  shows "P (window_message event s)"
proof -
  have "P t \<Longrightarrow> P (fold (\<lambda>w t. state_of (handleMessageEvent w event t)) ws t)" for ws t
  proof (induction ws arbitrary: t)
    case Nil
    then show ?case by simp
  next
    case (Cons w ws)
    from Cons.prems have "P (state_of (handleMessageEvent w event t))"
      using calls callbacks console onload by (rule handleMessageEvent_preserves)
    then show ?case by (simp add: Cons.IH)
  qed
  with P show ?thesis by (simp add: window_message_def)
qed


lemma sound_updates:
  "sound (s\<lparr>calls := x\<rparr>) = sound s"
  "sound (s\<lparr>callbacks := y\<rparr>) = sound s"
  "sound (s\<lparr>console := z\<rparr>) = sound s"
  by (simp_all add: sound_def posted_ok_def closure_ok_def pinned_def unbound_def
        cong: option.case_cong)

lemma sound_bindings:
  assumes "sound s" and "\<not> onloadDone s"
  shows "sound (bindings (s\<lparr>onloadDone := True\<rparr>))"
proof -
  from assms have "targetWindow s = None" and "listeners s = []"
    by (auto simp add: sound_def closure_ok_def split: option.splits)
  with assms(1) show ?thesis
    by (simp add: sound_def posted_ok_def closure_ok_def pinned_def bindings_def
          cong: option.case_cong)
qed

lemma sound_iframe_onload: "sound s \<Longrightarrow> sound (iframe_onload s)"
  by (simp add: iframe_onload_def onload_bindings sound_bindings sound_fold_replay sound_buffer)

lemma destroy_closure_ok:
  assumes "closure_ok s"
  shows "destroy s =
           Returned (s\<lparr> body := (case root s of Some r \<Rightarrow> remove1 r (body s) | None \<Rightarrow> body s),
                         root := None,
                         listeners := [],
                         targetWindow := None,
                         boundMessageEventHandler := None,
                         boundSave := None,
                         boundLoad := None \<rparr>)"
proof (cases "root s")
  case None
  show ?thesis
  proof (cases "targetWindow s")
    case None
    with \<open>root s = None\<close> assms show ?thesis
      by (simp add: destroy_def closure_ok_def)
  next
    case (Some w)
    with \<open>root s = None\<close> assms show ?thesis
      by (simp add: destroy_def closure_ok_def)
  qed
next
  case (Some r)
  show ?thesis
  proof (cases "targetWindow s")
    case None
    with \<open>root s = Some r\<close> assms show ?thesis
      by (simp add: destroy_def closure_ok_def)
  next
    case (Some w)
    with \<open>root s = Some r\<close> assms show ?thesis
      by (simp add: destroy_def closure_ok_def)
  qed
qed

lemma sound_destroy:
  assumes "sound s"
  shows "sound (state_of (destroy s))"
proof -
  from assms have c: "closure_ok s" by (simp add: sound_def)
  from assms have "onloadDone s \<or> unbound s"
    by (simp add: sound_def closure_ok_def)
  then have u: "onloadDone s \<or> boundEmpty s = None \<and> boundCount s = None \<and> boundKey s = None"
    by (auto simp add: unbound_def)
  from assms u show ?thesis
    unfolding destroy_closure_ok [OF c]
    by (simp add: sound_def posted_ok_def closure_ok_def pinned_def unbound_def)
qed

lemma sound_step: "sound s \<Longrightarrow> sound (step e s)"
proof (cases e)
  case (Call c)
  assume "sound s"
  with Call show ?thesis by (simp add: sound_invoke)
next
  case Destroy
  assume "sound s"
  with Destroy show ?thesis by (simp add: sound_destroy)
next
  case IframeLoad
  assume "sound s"
  with IframeLoad show ?thesis by (simp add: sound_iframe_onload)
next
  case (Message m)
  assume "sound s"
  then have "sound (window_message m s)"
    by (rule window_message_preserves) (simp_all add: sound_updates sound_iframe_onload)
  with Message show ?thesis by simp
qed

lemma sound_run: "sound s \<Longrightarrow> sound (run es s)"
  unfolding run_def by (induction es arbitrary: s) (simp_all add: sound_step)

lemma sound_FrameStorage: "sound (FrameStorage p url)"
  by (simp add: sound_def posted_ok_def closure_ok_def pinned_def unbound_def
        FrameStorage_def Let_def)

section \<open>What stays fixed along a run\<close>

lemma static_closure:
  assumes "closure_of t = closure_of s"
  shows "static t = static s"
  using closure_of_fields(1) [OF assms] closure_of_fields(2) [OF assms]
    closure_of_fields(8) [OF assms]
  by (simp add: static_def)

lemma closure_replay: "closure_of (replay it s) = closure_of s"
  by (cases it) (simp_all add: replay_def send_closure split: option.splits)

lemma closure_fold_replay: "closure_of (fold replay xs s) = closure_of s"
  by (induction xs arbitrary: s) (simp_all add: closure_replay)

lemma static_updates:
  "static (s\<lparr>calls := x\<rparr>) = static s"
  "static (s\<lparr>callbacks := y\<rparr>) = static s"
  "static (s\<lparr>console := z\<rparr>) = static s"
  "static (s\<lparr>buffer := b\<rparr>) = static s"
  "static (s\<lparr>onloadDone := d\<rparr>) = static s"
  "static (bindings s) = static s"
  by (simp_all add: static_def bindings_def)

lemma static_iframe_onload: "static (iframe_onload s) = static s"
  using static_closure [OF closure_fold_replay,
      of "buffer (s\<lparr>onloadDone := True\<rparr>)" "bindings (s\<lparr>onloadDone := True\<rparr>)"]
  by (simp add: iframe_onload_def onload_bindings static_updates)

lemma static_invoke: "static (invoke c s) = static s"
proof -
  from invoke_replay_or_push [of c s] show ?thesis
  proof
    assume "invoke c s = replay (item_of c) s"
    then show ?thesis
      using static_closure [OF closure_replay, of "item_of c" s] by simp
  next
    assume "invoke c s = s\<lparr>buffer := buffer s @ [item_of c]\<rparr>"
    then show ?thesis by (simp add: static_updates)
  qed
qed

lemma destroy_cases:
  "destroy s = Threw NotFoundError s
   \<or> (\<exists>b r l t. destroy s =
         Returned (s\<lparr> body := b, root := r, listeners := l, targetWindow := t,
                       boundMessageEventHandler := None, boundSave := None,
                       boundLoad := None \<rparr>))"
proof (cases "root s")
  case None
  show ?thesis
  proof (cases "targetWindow s")
    case None
    with \<open>root s = None\<close> have "destroy s =
         Returned (s\<lparr> body := body s, root := root s, listeners := listeners s,
                       targetWindow := targetWindow s,
                       boundMessageEventHandler := None, boundSave := None,
                       boundLoad := None \<rparr>)"
      by (simp add: destroy_def)
    then show ?thesis by blast
  next
    case (Some w)
    with \<open>root s = None\<close> have "destroy s =
         Returned (s\<lparr> body := body s, root := root s,
                       listeners := (case boundMessageEventHandler s of
                                       Some l \<Rightarrow> remove1 l (listeners s)
                                     | None \<Rightarrow> listeners s),
                       targetWindow := None,
                       boundMessageEventHandler := None, boundSave := None,
                       boundLoad := None \<rparr>)"
      by (simp add: destroy_def)
    then show ?thesis by blast
  qed
next
  case (Some r)
  show ?thesis
  proof (cases "r \<in> set (body s)")
    case False
    with Some show ?thesis by (simp add: destroy_def)
  next
    case True
    show ?thesis
    proof (cases "targetWindow s")
      case None
      with True \<open>root s = Some r\<close> have "destroy s =
           Returned (s\<lparr> body := remove1 r (body s), root := None, listeners := listeners s,
                         targetWindow := targetWindow s,
                         boundMessageEventHandler := None, boundSave := None,
                         boundLoad := None \<rparr>)"
        by (simp add: destroy_def)
      then show ?thesis by blast
    next
      case (Some w)
      with True \<open>root s = Some r\<close> have "destroy s =
           Returned (s\<lparr> body := remove1 r (body s), root := None,
                         listeners := (case boundMessageEventHandler s of
                                         Some l \<Rightarrow> remove1 l (listeners s)
                                       | None \<Rightarrow> listeners s),
                         targetWindow := None,
                         boundMessageEventHandler := None, boundSave := None,
                         boundLoad := None \<rparr>)"
        by (simp add: destroy_def cong: option.case_cong)
      then show ?thesis by blast
    qed
  qed
qed

lemma static_destroy: "static (state_of (destroy s)) = static s"
  using destroy_cases [of s] by (auto simp add: static_def)

lemma static_step: "static (step e s) = static s"
proof (cases e)
  case (Message m)
  have "static s = static s" ..
  then have "static (window_message m s) = static s"
    by (rule window_message_preserves [where P = "\<lambda>t. static t = static s"])
      (simp_all add: static_updates static_iframe_onload)
  with Message show ?thesis by simp
qed (simp_all add: static_invoke static_destroy static_iframe_onload)

lemma static_run: "static (run es s) = static s"
  unfolding run_def by (induction es arbitrary: s) (simp_all add: static_step)

lemma static_FrameStorage:
  "static (FrameStorage p url) =
     (case match_origin url of Some m \<Rightarrow> m | None \<Rightarrow> location_protocol p @ ''//'' @ location_host p,
      frame_window p, random p)"
  by (simp add: static_def FrameStorage_def Let_def split: option.splits)


section \<open>The channel origin\<close>

text \<open>
  Claim C10. When the address given to the constructor does not match the regular
  expression \<^verbatim>\<open>/^(https?:\/\/[a-z0-9-.:@]+)\/?/i\<close>, the channel origin is the origin of
  the page itself, \<^verbatim>\<open>location.protocol + '//' + location.host\<close>; nothing is logged;
  and along every run of the client every message posted is addressed to that origin.
\<close>

theorem origin_falls_back_to_page:
  assumes "match_origin url = None"
  shows "channelOrigin (FrameStorage p url) = location_protocol p @ ''//'' @ location_host p
         \<and> console (FrameStorage p url) = []
         \<and> (\<forall>m \<in> set (posted (run es (FrameStorage p url))).
               snd (snd m) = location_protocol p @ ''//'' @ location_host p)"
proof -
  let ?s = "FrameStorage p url"
  have o: "channelOrigin ?s = location_protocol p @ ''//'' @ location_host p"
    using assms by (simp add: FrameStorage_def Let_def)
  have "static (run es ?s) = static ?s"
    by (rule static_run)
  then have "channelOrigin (run es ?s) = channelOrigin ?s"
    by (simp add: static_def)
  moreover have "posted_ok (run es ?s)"
    using sound_run [OF sound_FrameStorage, of es p url] by (simp add: sound_def)
  ultimately have "\<forall>m \<in> set (posted (run es ?s)). snd (snd m) = channelOrigin ?s"
    by (simp add: posted_ok_def)
  with o show ?thesis
    by (simp add: FrameStorage_def Let_def)
qed



theorem origin_falls_back_to_page_witness:
  "match_origin ''/channel.html'' = None
   \<and> channelOrigin (FrameStorage page0 ''/channel.html'') = ''https://app.example''
   \<and> length (posted (run [Call (Length None), IframeLoad, Call (Clear None)]
                        (FrameStorage page0 ''/channel.html''))) = 2
   \<and> list_all (\<lambda>m. snd (snd m) = ''https://app.example'')
        (posted (run [Call (Length None), IframeLoad, Call (Clear None)]
                   (FrameStorage page0 ''/channel.html'')))"
proof -
  have m: "match_origin ''/channel.html'' = None"
    by (simp add: match_origin_def scheme_length_def lower_def)
  have l: "length (posted (run [Call (Length None), IframeLoad, Call (Clear None)]
                   (FrameStorage page0 ''/channel.html''))) = 2"
    by (simp add: run_def FrameStorage_def Let_def api_defs send_defs iframe_onload_def
          onload_def replay_def m)
  from origin_falls_back_to_page
         [OF m, of page0 "[Call (Length None), IframeLoad, Call (Clear None)]"]
  show ?thesis
    using m l by (simp add: list_all_iff page0_def)
qed

section \<open>\<^verbatim>\<open>destroy\<close>\<close>







section \<open>The buffer after the iframe has loaded\<close>

lemma live_closure: "closure_of t = closure_of s \<Longrightarrow> live t = live s"
proof -
  assume a: "closure_of t = closure_of s"
  have "live t = live (closure_of t)" for t
    by (simp add: live_def closure_of_def ready_for_def)
  with a show ?thesis by metis
qed

lemma waiting_closure: "closure_of t = closure_of s \<Longrightarrow> waiting t = waiting s"
proof -
  assume a: "closure_of t = closure_of s"
  have "waiting t = waiting (closure_of t)" for t
    by (simp add: waiting_def closure_of_def unbound_def)
  with a show ?thesis by metis
qed

lemma live_updates:
  "live (s\<lparr>calls := x\<rparr>) = live s"
  "live (s\<lparr>callbacks := y\<rparr>) = live s"
  "live (s\<lparr>console := z\<rparr>) = live s"
  "waiting (s\<lparr>calls := x\<rparr>) = waiting s"
  "waiting (s\<lparr>callbacks := y\<rparr>) = waiting s"
  "waiting (s\<lparr>console := z\<rparr>) = waiting s"
  "waiting (s\<lparr>buffer := b\<rparr>) = waiting s"
  by (simp_all add: live_def waiting_def ready_for_def unbound_def)

lemma live_invoke: "live s \<Longrightarrow> live (invoke c s)"
proof -
  assume l: "live s"
  then have "ready_for (contentWindow s) (channelOrigin s) s"
    by (simp add: live_def)
  then have "invoke c s = replay (item_of c) s"
    by (rule invoke_ready)
  with l live_closure [OF closure_replay, of "item_of c" s] show ?thesis
    by simp
qed

lemma waiting_invoke: "waiting s \<Longrightarrow> waiting (invoke c s)"
proof -
  assume w: "waiting s"
  then have "unbound s" by (simp add: waiting_def)
  then have "invoke c s = s\<lparr>buffer := buffer s @ [item_of c]\<rparr>"
    by (rule invoke_unbound)
  with w show ?thesis by (simp add: live_updates)
qed

lemma live_iframe_onload: "live s \<Longrightarrow> iframe_onload s = s"
  by (simp add: live_def iframe_onload_def)

lemma waiting_iframe_onload:
  assumes "waiting s"
  shows "live (iframe_onload s)"
proof -
  let ?b = "bindings (s\<lparr>onloadDone := True\<rparr>)"
  have r: "ready_for (contentWindow s) (channelOrigin s) (fold replay (buffer s) ?b)"
    using fold_replay_ready [OF bindings_ready [of "s\<lparr>onloadDone := True\<rparr>"], of "buffer s"]
    by simp
  have c: "closure_of (fold replay (buffer s) ?b) = closure_of ?b"
    by (rule closure_fold_replay)
  have "onloadDone (fold replay (buffer s) ?b)"
    "contentWindow (fold replay (buffer s) ?b) = contentWindow s"
    "channelOrigin (fold replay (buffer s) ?b) = channelOrigin s"
    using closure_of_fields(5) [OF c] closure_of_fields(2) [OF c] closure_of_fields(1) [OF c]
    by (simp_all add: bindings_def)
  with r assms show ?thesis
    by (simp add: waiting_def iframe_onload_def onload_bindings live_def ready_for_def
          bindings_def)
qed

lemma live_or_waiting_iframe_onload:
  "live s \<or> waiting s \<Longrightarrow> live (iframe_onload s) \<or> waiting (iframe_onload s)"
  using live_iframe_onload [of s] waiting_iframe_onload [of s] by auto

lemma live_step:
  assumes "e \<noteq> Destroy" and "live s \<or> waiting s"
  shows "live (step e s) \<or> waiting (step e s)"
proof (cases e)
  case (Call c)
  with assms(2) live_invoke [of s c] waiting_invoke [of s c] show ?thesis by auto
next
  case Destroy
  with assms(1) show ?thesis by simp
next
  case IframeLoad
  with assms(2) live_or_waiting_iframe_onload [of s] show ?thesis by simp
next
  case (Message m)
  from assms(2) have "live (window_message m s) \<or> waiting (window_message m s)"
    by (rule window_message_preserves [where P = "\<lambda>t. live t \<or> waiting t"])
      (simp_all add: live_updates live_or_waiting_iframe_onload)
  with Message show ?thesis by simp
qed

lemma live_only_step:
  assumes "e \<noteq> Destroy" and "live s"
  shows "live (step e s)"
proof (cases e)
  case (Call c)
  with assms(2) live_invoke [of s c] show ?thesis by simp
next
  case Destroy
  with assms(1) show ?thesis by simp
next
  case IframeLoad
  with assms(2) live_iframe_onload [of s] show ?thesis by simp
next
  case (Message m)
  from assms(2) have "live (window_message m s)"
    by (rule window_message_preserves [where P = live])
      (simp_all add: live_updates live_iframe_onload)
  with Message show ?thesis by simp
qed

lemma live_or_waiting_run:
  "Destroy \<notin> set es \<Longrightarrow> live s \<or> waiting s \<Longrightarrow> live (run es s) \<or> waiting (run es s)"
proof (induction es arbitrary: s)
  case Nil
  then show ?case by (simp add: run_def)
next
  case (Cons e es)
  from Cons.prems have "live (step e s) \<or> waiting (step e s)"
    by (intro live_step) auto
  with Cons.IH [of "step e s"] Cons.prems(1) show ?case
    by (simp add: run_Cons)
qed

lemma live_run: "Destroy \<notin> set es \<Longrightarrow> live s \<Longrightarrow> live (run es s)"
proof (induction es arbitrary: s)
  case Nil
  then show ?case by (simp add: run_def)
next
  case (Cons e es)
  from Cons.prems have "live (step e s)"
    by (intro live_only_step) auto
  with Cons.IH [of "step e s"] Cons.prems(1) show ?case
    by (simp add: run_Cons)
qed

lemma waiting_FrameStorage: "waiting (FrameStorage p url)"
  by (simp add: waiting_def unbound_def FrameStorage_def Let_def)


text \<open>
  Claim C7 says that once the load event has been processed the buffer is never filled
  again and every later operation is sent at once. But \<^verbatim>\<open>destroy\<close> sets
  \<^verbatim>\<open>boundSave\<close> and \<^verbatim>\<open>boundLoad\<close> to null, so a \<^verbatim>\<open>getItem\<close> after it is pushed
  onto the buffer and nothing is sent.
\<close>

theorem queue_repopulated_after_destroy:
  "buffer (run [IframeLoad, Destroy, Call (GetItem (Str ''theme'') (Some h2))]
             (FrameStorage page0 ''https://store.example/channel.html''))
     = [Load (Str ''theme'') (Some h2)]
   \<and> posted (run [IframeLoad, Destroy, Call (GetItem (Str ''theme'') (Some h2))]
               (FrameStorage page0 ''https://store.example/channel.html'')) = []"
  by (simp add: run_def FrameStorage_def Let_def api_defs iframe_onload_def
        onload_def destroy_def)

text \<open>
  Claim C7, amended. In a run without \<^verbatim>\<open>destroy\<close>, once the load event has been
  processed the buffer is empty, and every public operation called from then on leaves
  it empty and posts its envelope at once, to the window of the iframe and the channel
  origin.
\<close>

theorem queue_stays_empty_until_destroy:
  assumes "Destroy \<notin> set es" and "Destroy \<notin> set fs"
  shows "buffer (run (es @ IframeLoad # fs) (FrameStorage p url)) = []
         \<and> buffer (invoke c (run (es @ IframeLoad # fs) (FrameStorage p url))) = []
         \<and> posted (invoke c (run (es @ IframeLoad # fs) (FrameStorage p url)))
             = posted (run (es @ IframeLoad # fs) (FrameStorage p url))
               @ [(frame_window p,
                   JSON_stringify (envelope c (CHR ''c'' # random p
                      (draws (run (es @ IframeLoad # fs) (FrameStorage p url))))),
                   channelOrigin (FrameStorage p url))]"
proof -
  let ?init = "FrameStorage p url"
  let ?s = "run (es @ IframeLoad # fs) ?init"
  have "live (run es ?init) \<or> waiting (run es ?init)"
    using live_or_waiting_run [OF assms(1), of ?init] waiting_FrameStorage [of p url] by simp
  then have "live (iframe_onload (run es ?init))"
    using live_iframe_onload [of "run es ?init"] waiting_iframe_onload [of "run es ?init"]
    by auto
  then have l: "live ?s"
    using live_run [OF assms(2)] by (simp add: run_append run_Cons)
  have st: "static ?s = static ?init"
    by (rule static_run)
  then have f: "contentWindow ?s = frame_window p" "entropy ?s = random p"
    "channelOrigin ?s = channelOrigin ?init"
    by (simp_all add: static_def FrameStorage_def Let_def)
  from l have r: "ready_for (frame_window p) (channelOrigin ?init) ?s" and b: "buffer ?s = []"
    by (simp_all add: live_def f)
  from invoke_ready_posted(1) [OF r, of c] invoke_ready_posted(4) [OF r, of c] b f
  show ?thesis by simp
qed


theorem queue_stays_empty_until_destroy_witness:
  "Destroy \<notin> set [Call (SetItem (Str ''theme'') (Str ''dark'') (Some h1))]
   \<and> Destroy \<notin> set [Call (Length None)]
   \<and> buffer (run ([Call (SetItem (Str ''theme'') (Str ''dark'') (Some h1))]
                     @ IframeLoad # [Call (Length None)])
                (FrameStorage page0 ''https://store.example/channel.html'')) = []
   \<and> buffer (invoke (GetItem (Str ''theme'') (Some h2))
               (run ([Call (SetItem (Str ''theme'') (Str ''dark'') (Some h1))]
                      @ IframeLoad # [Call (Length None)])
                  (FrameStorage page0 ''https://store.example/channel.html''))) = []
   \<and> posted (invoke (GetItem (Str ''theme'') (Some h2))
               (run ([Call (SetItem (Str ''theme'') (Str ''dark'') (Some h1))]
                      @ IframeLoad # [Call (Length None)])
                  (FrameStorage page0 ''https://store.example/channel.html'')))
       = posted (run ([Call (SetItem (Str ''theme'') (Str ''dark'') (Some h1))]
                      @ IframeLoad # [Call (Length None)])
                  (FrameStorage page0 ''https://store.example/channel.html''))
         @ [(1, Json (Obj [(''action'', Str ''getItem''), (''ref'', Str ''c3c''),
                            (''key'', Str ''theme'')]),
             ''https://store.example'')]"
proof -
  have d: "draws (run ([Call (SetItem (Str ''theme'') (Str ''dark'') (Some h1))]
                      @ IframeLoad # [Call (Length None)])
                  (FrameStorage page0 ''https://store.example/channel.html'')) = 6"
    by (simp add: run_def FrameStorage_def Let_def api_defs send_defs iframe_onload_def
          onload_def replay_def)
  have o: "channelOrigin (FrameStorage page0 ''https://store.example/channel.html'')
             = ''https://store.example''"
    by (simp add: FrameStorage_def match_origin_def scheme_length_def lower_def
          host_char_def Let_def)
  from queue_stays_empty_until_destroy
         [where es = "[Call (SetItem (Str ''theme'') (Str ''dark'') (Some h1))]"
            and fs = "[Call (Length None)]" and c = "GetItem (Str ''theme'') (Some h2)"
            and p = page0 and url = "''https://store.example/channel.html''"]
  show ?thesis
    using d o by (simp add: page0_fields JSON_stringify_def)
qed


section \<open>Responses that no handler waits for\<close>

lemma is_response_not_nullish: "is_response message \<Longrightarrow> \<not> nullish message"
  by (cases message) (simp_all add: is_response_def)

lemma call_unregistered:
  assumes "reg name = None"
  shows "call_callback (lookup_callback reg name) a b s =
           (if name \<in> set Object_prototype \<and> prototype_call_throws name a
            then Threw TypeError s else Returned s)"
  using assms by (simp add: lookup_callback_def call_callback_def)

lemma delete_absent:
  "callbacks s k = None \<Longrightarrow> s\<lparr>callbacks := (callbacks s)(k := None)\<rparr> = s"
  by (simp add: fun_upd_idem)

lemma handle_response:
  assumes "ev_source event = w" and "ev_data event = Json message" and "is_response message"
    and "ToString (get_prop message ''ref'') = Some k"
  shows "handleMessageEvent w event s =
           (case call_callback (lookup_callback (callbacks s) k)
                   (first_argument message) (second_argument message) s of
              Threw e s1 \<Rightarrow> Threw e s1
            | Returned s1 \<Rightarrow> Returned (s1\<lparr>callbacks := (callbacks s1)(k := None)\<rparr>))"
  unfolding handleMessageEvent_keyed
      [OF assms(1,2) is_response_not_nullish [OF assms(3)] assms(4)]
  using assms(3)
  by (auto simp add: is_response_def first_argument_def second_argument_def)

lemma unknown_ref_outcome:
  assumes "ev_data event = Json message" and "is_response message"
    and "ToString (get_prop message ''ref'') = Some k" and "callbacks s k = None"
  shows "handleMessageEvent w event s =
           (if ev_source event = w \<and> k \<in> set Object_prototype
               \<and> prototype_call_throws k (first_argument message)
            then Threw TypeError s else Returned s)"
proof (cases "ev_source event = w")
  case False
  then show ?thesis by (simp add: handleMessageEvent_def)
next
  case True
  show ?thesis
    unfolding handle_response [OF True assms(1,2,3)]
      call_unregistered [where reg = "callbacks s" and name = k, OF assms(4)]
    using True by (simp add: delete_absent [OF assms(4)])
qed

lemma unknown_ref_noop:
  assumes "ev_data event = Json message" and "is_response message"
    and "ToString (get_prop message ''ref'') = Some k" and "callbacks s k = None"
  shows "state_of (handleMessageEvent w event s) = s"
  unfolding unknown_ref_outcome [OF assms] by simp

lemma returned_removes:
  assumes "handleMessageEvent w event s = Returned t"
    and "ev_source event = w" and "ev_data event = Json message"
  shows "\<not> nullish message
         \<and> (case ToString (get_prop message ''ref'') of
              None \<Rightarrow> False | Some k \<Rightarrow> callbacks t k = None)"
proof (cases "nullish message")
  case True
  with assms show ?thesis
    by (simp add: handleMessageEvent_def JSON_parse_def)
next
  case False
  show ?thesis
  proof (cases "ToString (get_prop message ''ref'')")
    case None
    with assms(1) handleMessageEvent_unkeyed [OF assms(2,3) False None, of s]
    show ?thesis by simp
  next
    case (Some k)
    let ?r = "if get_prop message ''action'' = Str ''frameStorageSuccess''
              then call_callback (lookup_callback (callbacks s) k) Null
                     (get_prop message ''value'') s
              else if get_prop message ''action'' = Str ''frameStorageError''
              then call_callback (lookup_callback (callbacks s) k)
                     (get_prop message ''message'') Null s
              else Returned (s\<lparr>console := console s @ [ConsoleError ''Unknown action'']\<rparr>)"
    from assms(1) have
      "(case ?r of Threw e s1 \<Rightarrow> Threw e s1
        | Returned s1 \<Rightarrow> Returned (s1\<lparr>callbacks := (callbacks s1)(k := None)\<rparr>))
       = Returned t"
      by (simp only: handleMessageEvent_keyed [OF assms(2,3) False Some])
    then have "callbacks t k = None"
      by (cases ?r) auto
    with False Some show ?thesis by simp
  qed
qed

text \<open>
  Claim C2 says that a response whose ref is not in the registry is answered with a
  logged warning. The listener logs nothing for it: a ref that is not found gets the
  empty function.
\<close>

theorem unknown_ref_logs_nothing:
  "callbacks (pending h2) ''c9d'' = None
   \<and> console (pending h2) = []
   \<and> handleMessageEvent 1 (answer ''frameStorageSuccess'' ''c9d'') (pending h2)
       = Returned (pending h2)
   \<and> console (state_of (handleMessageEvent 1 (answer ''frameStorageSuccess'' ''c9d'')
                            (pending h2))) = []"
proof -
  have u: "callbacks (pending h2) ''c9d'' = None"
    by (simp add: pending_fields)
  have "handleMessageEvent 1 (answer ''frameStorageSuccess'' ''c9d'') (pending h2)
          = Returned (pending h2)"
    by (simp add: handleMessageEvent_def answer_def JSON_parse_def Let_def
          lookup_callback_def call_callback_def Object_prototype_def u delete_absent)
  with u show ?thesis
    by (simp add: pending_fields)
qed

text \<open>
  Claim C2, amended. Take a response envelope (action success or error) whose ref
  converts to a property key that is not in the registry. Handling it calls no handler,
  logs nothing, posts nothing and leaves the registry as it is: the state is unchanged.
  The listener returns, unless the key names a property that the registry object
  inherits from \<^verbatim>\<open>Object.prototype\<close> and whose call throws: then a TypeError leaves
  the listener, with the state still unchanged. And once a response has been handled
  and the listener has returned, its key is not in the registry any more, so a duplicate
  of the response calls no handler and changes nothing either.
\<close>

theorem unknown_ref_changes_nothing:
  assumes "ev_data event = Json message" and "is_response message"
    and "ToString (get_prop message ''ref'') = Some k"
  shows "(callbacks s k = None \<longrightarrow>
            handleMessageEvent w event s =
              (if ev_source event = w \<and> k \<in> set Object_prototype
                  \<and> prototype_call_throws k (first_argument message)
               then Threw TypeError s else Returned s)
            \<and> state_of (handleMessageEvent w event s) = s)
         \<and> (ev_source event = w \<longrightarrow> handleMessageEvent w event s = Returned t \<longrightarrow>
            callbacks t k = None
            \<and> state_of (handleMessageEvent w event t) = t
            \<and> (k \<notin> set Object_prototype \<longrightarrow> handleMessageEvent w event t = Returned t))"
proof (intro conjI impI)
  assume u: "callbacks s k = None"
  from assms u show "handleMessageEvent w event s =
      (if ev_source event = w \<and> k \<in> set Object_prototype
          \<and> prototype_call_throws k (first_argument message)
       then Threw TypeError s else Returned s)"
    by (rule unknown_ref_outcome)
  from assms u show "state_of (handleMessageEvent w event s) = s"
    by (rule unknown_ref_noop)
next
  assume a: "ev_source event = w" "handleMessageEvent w event s = Returned t"
  from returned_removes [OF a(2,1) assms(1)] assms(3)
  show r: "callbacks t k = None" by simp
  from assms r show "state_of (handleMessageEvent w event t) = t"
    by (rule unknown_ref_noop)
  assume "k \<notin> set Object_prototype"
  with unknown_ref_outcome [OF assms r, of w]
  show "handleMessageEvent w event t = Returned t" by simp
qed

theorem unknown_ref_changes_nothing_witness:
  "is_response (Obj [(''action'', Str ''frameStorageSuccess''), (''ref'', Str ''c1a''),
                     (''key'', Str ''theme''), (''value'', Str ''dark'')])
   \<and> handleMessageEvent 1 (answer ''frameStorageSuccess'' ''c1a'') (pending h2)
       = Returned ((pending h2)\<lparr> calls := [(2, Null, Str ''dark'')],
                                    callbacks := [''c3c'' \<mapsto> IframeOnload] \<rparr>)
   \<and> handleMessageEvent 1 (answer ''frameStorageSuccess'' ''c1a'')
         ((pending h2)\<lparr> calls := [(2, Null, Str ''dark'')],
                          callbacks := [''c3c'' \<mapsto> IframeOnload] \<rparr>)
       = Returned ((pending h2)\<lparr> calls := [(2, Null, Str ''dark'')],
                                    callbacks := [''c3c'' \<mapsto> IframeOnload] \<rparr>)
   \<and> callbacks (pending h2) ''c9d'' = None
   \<and> handleMessageEvent 1 (answer ''frameStorageError'' ''c9d'') (pending h2)
       = Returned (pending h2)
   \<and> callbacks (pending h2) ''valueOf'' = None
   \<and> handleMessageEvent 1 (answer ''frameStorageSuccess'' ''valueOf'') (pending h2)
       = Threw TypeError (pending h2)"
proof -
  let ?m = "\<lambda>action ref. Obj [(''action'', Str action), (''ref'', Str ref),
                 (''key'', Str ''theme''), (''value'', Str ''dark'')]"
  let ?t = "(pending h2)\<lparr> calls := [(2, Null, Str ''dark'')],
                             callbacks := [''c3c'' \<mapsto> IframeOnload] \<rparr>"
  have d: "ev_data (answer action ref) = Json (?m action ref)"
    and e: "ev_source (answer action ref) = 1" for action ref
    by (simp_all add: answer_def)
  have r: "is_response (?m ''frameStorageSuccess'' ref)"
    "is_response (?m ''frameStorageError'' ref)" for ref
    by (simp_all add: is_response_def)
  have k: "ToString (get_prop (?m action ref) ''ref'') = Some ref" for action ref
    by simp
  have h: "handleMessageEvent 1 (answer ''frameStorageSuccess'' ''c1a'') (pending h2) = Returned ?t"
    using pending_handled [of h2] by (simp add: h2_def)
  have u: "callbacks (pending h2) ''c9d'' = None" "callbacks (pending h2) ''valueOf'' = None"
    by (simp_all add: pending_fields)
  have p: "''c1a'' \<notin> set Object_prototype" "''c9d'' \<notin> set Object_prototype"
    "''valueOf'' \<in> set Object_prototype"
    "prototype_call_throws ''valueOf'' (first_argument (?m ''frameStorageSuccess'' ''valueOf''))"
    by (simp_all add: Object_prototype_def prototype_call_throws_def)
  from unknown_ref_changes_nothing
         [OF d [of "''frameStorageSuccess''" "''c1a''"] r(1) [of "''c1a''"] k [of "''frameStorageSuccess''" "''c1a''"],
          where s = "pending h2" and w = 1 and t = ?t]
       unknown_ref_changes_nothing
         [OF d [of "''frameStorageError''" "''c9d''"] r(2) [of "''c9d''"] k [of "''frameStorageError''" "''c9d''"],
          where s = "pending h2" and w = 1 and t = ?t]
       unknown_ref_changes_nothing
         [OF d [of "''frameStorageSuccess''" "''valueOf''"] r(1) [of "''valueOf''"] k [of "''frameStorageSuccess''" "''valueOf''"],
          where s = "pending h2" and w = 1 and t = ?t]
  show ?thesis
    using e h r u p by simp
qed

section \<open>The registry after a message has been handled\<close>

lemma unknown_action_returns:
  assumes "ev_source event = w" and "ev_data event = Json message"
    and "\<not> nullish message" and "\<not> is_response message"
    and "ToString (get_prop message ''ref'') = Some k"
  shows "handleMessageEvent w event s =
           Returned (s\<lparr> console := console s @ [ConsoleError ''Unknown action''],
                         callbacks := (callbacks s)(k := None) \<rparr>)"
  unfolding handleMessageEvent_keyed [OF assms(1,2,3,5)]
  using assms(4) by (simp add: is_response_def)

text \<open>
  Claim C9 says that after the listener has run on a message from the target window the
  registry holds no entry for the ref of the message. The \<^verbatim>\<open>delete\<close> is the last
  statement of the listener and no \<^verbatim>\<open>try\<close> protects it: when the handler throws,
  the listener is left before it and the entry stays.
\<close>

theorem throwing_handler_stays_registered:
  "ev_source (answer ''frameStorageSuccess'' ''c1a'') = 1
   \<and> handleMessageEvent 1 (answer ''frameStorageSuccess'' ''c1a'') (pending h3)
       = Threw (UserError ''boom'') ((pending h3)\<lparr>calls := [(3, Null, Str ''dark'')]\<rparr>)
   \<and> callbacks (state_of (handleMessageEvent 1 (answer ''frameStorageSuccess'' ''c1a'')
                             (pending h3))) ''c1a''
       = Some (Completion h3)"
  using pending_handled [of h3]
  by (simp add: h3_def answer_def pending_fields)

text \<open>
  Claim C9, amended. For a message from the target window whose data parses: when the
  listener returns, the message is not null, its ref converts to a property key and the
  registry holds no entry under that key. When the message is not null, its ref converts
  to a property key and its action is neither success nor error, the listener does
  return, after logging the unknown action and deleting the entry, and calls no handler.
  When the message is not null and its ref does not convert to a property key, the
  lookup throws a TypeError and the listener is left with the state as it was: nothing
  is logged and nothing is deleted.
\<close>

theorem handled_ref_leaves_registry:
  assumes "ev_source event = w" and "ev_data event = Json message"
  shows "(handleMessageEvent w event s = Returned t \<longrightarrow>
            \<not> nullish message
            \<and> (case ToString (get_prop message ''ref'') of
                 None \<Rightarrow> False | Some k \<Rightarrow> callbacks t k = None))
         \<and> (\<not> nullish message \<and> \<not> is_response message
              \<and> ToString (get_prop message ''ref'') = Some k \<longrightarrow>
            handleMessageEvent w event s =
              Returned (s\<lparr> console := console s @ [ConsoleError ''Unknown action''],
                            callbacks := (callbacks s)(k := None) \<rparr>))
         \<and> (\<not> nullish message \<and> ToString (get_prop message ''ref'') = None \<longrightarrow>
            handleMessageEvent w event s = Threw TypeError s)"
proof (intro conjI impI)
  assume "handleMessageEvent w event s = Returned t"
  from returned_removes [OF this assms]
  show "\<not> nullish message"
    and "case ToString (get_prop message ''ref'') of
           None \<Rightarrow> False | Some k \<Rightarrow> callbacks t k = None"
    by simp_all
next
  assume "\<not> nullish message \<and> \<not> is_response message
          \<and> ToString (get_prop message ''ref'') = Some k"
  with assms show "handleMessageEvent w event s =
      Returned (s\<lparr> console := console s @ [ConsoleError ''Unknown action''],
                    callbacks := (callbacks s)(k := None) \<rparr>)"
    by (simp add: unknown_action_returns)
next
  assume "\<not> nullish message \<and> ToString (get_prop message ''ref'') = None"
  with assms show "handleMessageEvent w event s = Threw TypeError s"
    by (simp add: handleMessageEvent_unkeyed)
qed

theorem handled_ref_leaves_registry_witness:
  "ev_source (answer ''bogus'' ''c1a'') = 1
   \<and> callbacks (pending h2) ''c1a'' = Some (Completion h2)
   \<and> handleMessageEvent 1 (answer ''bogus'' ''c1a'') (pending h2)
       = Returned ((pending h2)\<lparr> console := [ConsoleError ''Unknown action''],
                                    callbacks := [''c3c'' \<mapsto> IframeOnload] \<rparr>)
   \<and> calls ((pending h2)\<lparr> console := [ConsoleError ''Unknown action''],
                            callbacks := [''c3c'' \<mapsto> IframeOnload] \<rparr>) = []
   \<and> callbacks ((pending h2)\<lparr> console := [ConsoleError ''Unknown action''],
                                callbacks := [''c3c'' \<mapsto> IframeOnload] \<rparr>) ''c1a'' = None
   \<and> handleMessageEvent 1 (answer ''frameStorageSuccess'' ''c1a'') (pending h2)
       = Returned ((pending h2)\<lparr> calls := [(2, Null, Str ''dark'')],
                                    callbacks := [''c3c'' \<mapsto> IframeOnload] \<rparr>)
   \<and> callbacks ((pending h2)\<lparr> calls := [(2, Null, Str ''dark'')],
                                callbacks := [''c3c'' \<mapsto> IframeOnload] \<rparr>) ''c1a'' = None
   \<and> ToString (Obj [(''toString'', Num ''1'')]) = None
   \<and> handleMessageEvent 1
         \<lparr> ev_origin = ''https://store.example'',
           ev_data = Json (Obj [(''action'', Str ''bogus''),
                                (''ref'', Obj [(''toString'', Num ''1'')])]),
           ev_source = 1 \<rparr> (pending h2)
       = Threw TypeError (pending h2)"
proof -
  let ?m = "Obj [(''action'', Str ''bogus''), (''ref'', Str ''c1a''),
                 (''key'', Str ''theme''), (''value'', Str ''dark'')]"
  have e: "ev_source (answer ''bogus'' ''c1a'') = 1" and d: "ev_data (answer ''bogus'' ''c1a'') = Json ?m"
    by (simp_all add: answer_def)
  have n: "\<not> nullish ?m \<and> \<not> is_response ?m \<and> ToString (get_prop ?m ''ref'') = Some ''c1a''"
    by (simp add: is_response_def)
  let ?m' = "Obj [(''action'', Str ''frameStorageSuccess''), (''ref'', Str ''c1a''),
                  (''key'', Str ''theme''), (''value'', Str ''dark'')]"
  let ?t = "(pending h2)\<lparr> calls := [(2, Null, Str ''dark'')],
                             callbacks := [''c3c'' \<mapsto> IframeOnload] \<rparr>"
  have e': "ev_source (answer ''frameStorageSuccess'' ''c1a'') = 1"
    and d': "ev_data (answer ''frameStorageSuccess'' ''c1a'') = Json ?m'"
    by (simp_all add: answer_def)
  have h: "handleMessageEvent 1 (answer ''frameStorageSuccess'' ''c1a'') (pending h2) = Returned ?t"
    using pending_handled [of h2] by (simp add: h2_def)
  let ?o = "Obj [(''action'', Str ''bogus''), (''ref'', Obj [(''toString'', Num ''1'')])]"
  let ?ev = "\<lparr> ev_origin = ''https://store.example'', ev_data = Json ?o, ev_source = 1 \<rparr>"
  have e'': "ev_source ?ev = 1" and d'': "ev_data ?ev = Json ?o"
    by simp_all
  have n'': "\<not> nullish ?o \<and> ToString (get_prop ?o ''ref'') = None"
    "ToString (Obj [(''toString'', Num ''1'')]) = None"
    by simp_all
  from handled_ref_leaves_registry [OF e d, of "pending h2" ?t "''c1a''"] n
       handled_ref_leaves_registry [OF e' d', of "pending h2" ?t "''c1a''"] h
       handled_ref_leaves_registry [OF e'' d'', of "pending h2" ?t "''c1a''"] n''
  show ?thesis
    using e by (simp add: pending_fields fun_upd_twist)
qed

section \<open>The dispatcher, case by case\<close>

lemma dispatch_known:
  assumes "ev_data event = Json message" and "\<not> nullish message"
    and "backend_call L message (localStorage s) = Some r"
  shows "dispatch L clientOrigin event s =
           Returned (case r of
               Inl err \<Rightarrow>
                 s\<lparr>posted := posted s @
                     [(ev_source event, JSON_stringify (error_envelope message err), clientOrigin)]\<rparr>
             | Inr (v, st) \<Rightarrow>
                 s\<lparr>localStorage := st,
                   posted := posted s @
                     [(ev_source event, JSON_stringify (success_envelope message v), clientOrigin)]\<rparr>)"
  using assms
  by (auto simp add: dispatch_def backend_call_def JSON_parse_def sendSuccess_def sendError_def
        sendMessage_def success_envelope_def error_envelope_def
      split: if_splits sum.splits)

lemma dispatch_unknown:
  assumes "ev_data event = Json message" and "\<not> nullish message"
    and "backend_call L message (localStorage s) = None"
  shows "dispatch L clientOrigin event s =
           Returned (s\<lparr>console := console s @ [ConsoleError ''Unknown action'']\<rparr>)"
  using assms
  by (simp add: dispatch_def backend_call_def JSON_parse_def split: if_splits)

lemma dispatch_garbage:
  "ev_data event = Garbage t \<Longrightarrow> dispatch L clientOrigin event s = Threw SyntaxError s"
  by (simp add: dispatch_def JSON_parse_def)

lemma dispatch_nullish:
  "ev_data event = Json message \<Longrightarrow> nullish message \<Longrightarrow>
   dispatch L clientOrigin event s = Threw TypeError s"
  by (simp add: dispatch_def JSON_parse_def)


lemma dispatch_differs_from_rejection:
  "dispatch L clientOrigin event s
     \<noteq> Returned (s\<lparr>console := console s @ [ConsoleError ''Origin mismatch'']\<rparr>)"
proof (cases "ev_data event")
  case (Garbage t)
  then show ?thesis by (simp add: dispatch_garbage)
next
  case (Json message)
  show ?thesis
  proof (cases "nullish message")
    case True
    with Json show ?thesis by (simp add: dispatch_nullish)
  next
    case False
    show ?thesis
    proof (cases "backend_call L message (localStorage s)")
      case None
      have "console (s\<lparr>console := console s @ [ConsoleError ''Unknown action'']\<rparr>)
              \<noteq> console (s\<lparr>console := console s @ [ConsoleError ''Origin mismatch'']\<rparr>)"
        by simp
      then have "s\<lparr>console := console s @ [ConsoleError ''Unknown action'']\<rparr>
                   \<noteq> s\<lparr>console := console s @ [ConsoleError ''Origin mismatch'']\<rparr>"
        by metis
      then show ?thesis
        by (simp add: dispatch_unknown [OF Json False None])
    next
      case (Some r)
      let ?t = "case r of
               Inl err \<Rightarrow>
                 s\<lparr>posted := posted s @
                     [(ev_source event, JSON_stringify (error_envelope message err), clientOrigin)]\<rparr>
             | Inr (v, st) \<Rightarrow>
                 s\<lparr>localStorage := st,
                   posted := posted s @
                     [(ev_source event, JSON_stringify (success_envelope message v), clientOrigin)]\<rparr>"
      have "posted ?t \<noteq> posted (s\<lparr>console := console s @ [ConsoleError ''Origin mismatch'']\<rparr>)"
        by (cases r) auto
      then have "?t \<noteq> s\<lparr>console := console s @ [ConsoleError ''Origin mismatch'']\<rparr>"
        by metis
      then show ?thesis
        by (simp add: dispatch_known [OF Json False Some])
    qed
  qed
qed

lemma dispatch_ignores_origin:
  "dispatch L clientOrigin (event\<lparr>ev_origin := origin\<rparr>) s = dispatch L clientOrigin event s"
  by (simp add: dispatch_def sendSuccess_def sendError_def cong: if_cong sum.case_cong)


section \<open>Envelopes through \<^verbatim>\<open>JSON.stringify\<close> and \<^verbatim>\<open>JSON.parse\<close>\<close>

lemma map_of_json_norm:
  "distinct (map fst fs) \<Longrightarrow>
   map_of (map (\<lambda>(k, v). (k, json_norm v)) (filter (\<lambda>(k, v). v \<noteq> Undefined) fs)) p
     = (case map_of fs p of
          None \<Rightarrow> None
        | Some v \<Rightarrow> if v = Undefined then None else Some (json_norm v))"
proof (induction fs)
  case Nil
  then show ?case by simp
next
  case (Cons x fs)
  obtain k v where x: "x = (k, v)" by (cases x)
  from Cons.prems x have d: "distinct (map fst fs)" and k: "k \<notin> fst ` set fs"
    by simp_all
  show ?case
  proof (cases "k = p")
    case False
    with x Cons.IH [OF d] show ?thesis by simp
  next
    case True
    show ?thesis
    proof (cases "v = Undefined")
      case False
      with True x show ?thesis by simp
    next
      case u: True
      from k True have "map_of fs p = None"
        by (simp add: map_of_eq_None_iff)
      with Cons.IH [OF d] True x u show ?thesis by simp
    qed
  qed
qed

lemma get_prop_json_norm:
  "distinct (map fst fs) \<Longrightarrow>
   get_prop (json_norm (Obj fs)) p = json_norm (get_prop (Obj fs) p)"
  by (simp add: map_of_json_norm split: option.splits)

lemma json_value_fields:
  assumes "json_norm (Obj fs) = Obj fs" and "(k, v) \<in> set fs"
  shows "json_norm v = v"
proof -
  let ?g = "\<lambda>(k, v). (k, json_norm v)"
  let ?P = "\<lambda>(k, v). v \<noteq> Undefined"
  from assms(1) have e: "map ?g (filter ?P fs) = fs" by simp
  then have "length (filter ?P fs) = length fs"
    by (metis length_map)
  then have "filter ?P fs = fs"
    by (metis filter_True length_filter_less less_irrefl)
  with e have "map ?g fs = fs" by simp
  then have "\<forall>x \<in> set fs. ?g x = x"
    by (simp add: map_idI map_eq_conv [where g = "\<lambda>x. x", simplified])
  with assms(2) show ?thesis by auto
qed

lemma json_value_prop:
  assumes "json_norm message = message"
  shows "json_norm (get_prop message p) = get_prop message p"
proof (cases message)
  case (Obj fs)
  show ?thesis
  proof (cases "map_of fs p")
    case None
    with Obj show ?thesis by simp
  next
    case (Some v)
    then have "(p, v) \<in> set fs" by (rule map_of_SomeD)
    with assms Obj have "json_norm v = v" by (simp only: json_value_fields)
    with Obj Some show ?thesis by simp
  qed
qed simp_all


lemma envelope_props:
  "get_prop (json_norm (success_envelope message v)) ''action'' = Str ''frameStorageSuccess''"
  "get_prop (json_norm (success_envelope message v)) ''ref'' = json_norm (get_prop message ''ref'')"
  "get_prop (json_norm (success_envelope message v)) ''key'' = json_norm (get_prop message ''key'')"
  "get_prop (json_norm (success_envelope message v)) ''value'' = json_norm v"
  "get_prop (json_norm (error_envelope message err)) ''action'' = Str ''frameStorageError''"
  "get_prop (json_norm (error_envelope message err)) ''ref'' = json_norm (get_prop message ''ref'')"
  "get_prop (json_norm (error_envelope message err)) ''key'' = json_norm (get_prop message ''key'')"
  "get_prop (json_norm (error_envelope message err)) ''message'' = Str err"
  unfolding success_envelope_def error_envelope_def
  by (simp_all add: get_prop_json_norm del: json_norm.simps(2))

lemma envelope_is_response:
  "is_response (json_norm (success_envelope message v))"
  "is_response (json_norm (error_envelope message err))"
  by (simp_all add: is_response_def envelope_props)

lemma call_registered:
  "reg name = Some (Completion h) \<Longrightarrow>
   calls (state_of (call_callback (lookup_callback reg name) a b c)) = calls c @ [(hid h, a, b)]"
  by (simp add: lookup_callback_def call_callback_def Let_def split: option.splits)

lemma calls_finish:
  "calls (state_of (case r of Threw e s1 \<Rightarrow> Threw e s1
                    | Returned s1 \<Rightarrow> Returned (s1\<lparr>callbacks := g s1\<rparr>)))
     = calls (state_of r)"
  by (cases r) simp_all

lemma handle_success:
  assumes "json_norm (get_prop message ''ref'') = get_prop message ''ref''"
    and "ToString (get_prop message ''ref'') = Some k"
    and "callbacks c k = Some (Completion h)"
  shows "calls (state_of (handleMessageEvent w
            \<lparr>ev_origin = origin, ev_data = JSON_stringify (success_envelope message v),
              ev_source = w\<rparr> c))
          = calls c @ [(hid h, Null, json_norm v)]"
proof -
  let ?e = "\<lparr>ev_origin = origin, ev_data = JSON_stringify (success_envelope message v),
             ev_source = w\<rparr>"
  have 1: "ev_source ?e = w" by simp
  have 2: "ev_data ?e = Json (json_norm (success_envelope message v))"
    by (simp add: JSON_stringify_def)
  have 3: "ToString (get_prop (json_norm (success_envelope message v)) ''ref'') = Some k"
    by (simp add: envelope_props(2) assms(1,2))
  show ?thesis
    unfolding handle_response [OF 1 2 envelope_is_response(1) 3] calls_finish
    using assms(3)
    by (simp add: envelope_props first_argument_def second_argument_def call_registered)
qed

lemma handle_error:
  assumes "json_norm (get_prop message ''ref'') = get_prop message ''ref''"
    and "ToString (get_prop message ''ref'') = Some k"
    and "callbacks c k = Some (Completion h)"
  shows "calls (state_of (handleMessageEvent w
            \<lparr>ev_origin = origin, ev_data = JSON_stringify (error_envelope message err),
              ev_source = w\<rparr> c))
          = calls c @ [(hid h, Str err, Null)]"
proof -
  let ?e = "\<lparr>ev_origin = origin, ev_data = JSON_stringify (error_envelope message err),
             ev_source = w\<rparr>"
  have 1: "ev_source ?e = w" by simp
  have 2: "ev_data ?e = Json (json_norm (error_envelope message err))"
    by (simp add: JSON_stringify_def)
  have 3: "ToString (get_prop (json_norm (error_envelope message err)) ''ref'') = Some k"
    by (simp add: envelope_props(6) assms(1,2))
  show ?thesis
    unfolding handle_response [OF 1 2 envelope_is_response(2) 3] calls_finish
    using assms(3)
    by (simp add: envelope_props first_argument_def second_argument_def call_registered)
qed


section \<open>The origin check of the dispatcher\<close>

text \<open>
  Claim C3. An origin that is left out at \<^verbatim>\<open>initChannel\<close> is the wildcard. With the
  wildcard every message goes on to the dispatcher, and what the dispatcher does never
  depends on the origin of the message. With any other expected origin a message goes
  on to the dispatcher exactly when its origin is that string; otherwise the listener
  logs the mismatch and returns: nothing is posted and the storage area is untouched.
\<close>

theorem origin_is_validated:
  "initChannel L None = initChannel L (Some ''*'')
   \<and> initChannel L (Some ''*'') event s = dispatch L ''*'' event s
   \<and> dispatch L clientOrigin (event\<lparr>ev_origin := origin\<rparr>) s = dispatch L clientOrigin event s
   \<and> (clientOrigin \<noteq> ''*'' \<longrightarrow>
        (initChannel L (Some clientOrigin) event s = dispatch L clientOrigin event s)
          = (ev_origin event = clientOrigin))
   \<and> (clientOrigin \<noteq> ''*'' \<and> ev_origin event \<noteq> clientOrigin \<longrightarrow>
        initChannel L (Some clientOrigin) event s
          = Returned (s\<lparr>console := console s @ [ConsoleError ''Origin mismatch'']\<rparr>))"
  using dispatch_differs_from_rejection [of L clientOrigin event s]
  by (auto simp add: initChannel_def listener_def dispatch_ignores_origin)

theorem origin_is_validated_witness:
  "initChannel storage0 (Some ''https://app.example'')
     (request ''https://evil.example'' (Json get_theme)) server0
     = Returned (server0\<lparr>console := [ConsoleError ''Origin mismatch'']\<rparr>)
   \<and> initChannel storage0 (Some ''https://app.example'')
       (request ''https://app.example'' (Json get_theme)) server0
     = dispatch storage0 ''https://app.example''
         (request ''https://app.example'' (Json get_theme)) server0
   \<and> initChannel storage0 None (request ''https://evil.example'' (Json get_theme)) server0
     = dispatch storage0 ''*'' (request ''https://app.example'' (Json get_theme)) server0
   \<and> dispatch storage0 ''*'' (request ''https://app.example'' (Json get_theme)) server0
     = Returned (server0\<lparr>posted :=
         [(0, Json (Obj [(''action'', Str ''frameStorageSuccess''), (''ref'', Str ''c1a''),
                         (''key'', Str ''theme''), (''value'', Str ''dark'')]), ''*'')]\<rparr>)"
proof -
  have o: "ev_origin (request ''https://evil.example'' (Json get_theme)) = ''https://evil.example''"
    "ev_origin (request ''https://app.example'' (Json get_theme)) = ''https://app.example''"
    "(request ''https://app.example'' (Json get_theme))\<lparr>ev_origin := ''https://evil.example''\<rparr>
       = request ''https://evil.example'' (Json get_theme)"
    by (simp_all add: request_def)
  have d: "dispatch storage0 ''*'' (request ''https://app.example'' (Json get_theme)) server0
     = Returned (server0\<lparr>posted :=
         [(0, Json (Obj [(''action'', Str ''frameStorageSuccess''), (''ref'', Str ''c1a''),
                         (''key'', Str ''theme''), (''value'', Str ''dark'')]), ''*'')]\<rparr>)"
    using dispatch_known [of "request ''https://app.example'' (Json get_theme)" get_theme
        storage0 server0 _ "''*''", OF _ requests_are_json(2) storage0_calls(1)]
    by (simp add: request_def success_envelope_def JSON_stringify_def get_theme_def server0_def)
  from origin_is_validated
         [where L = storage0 and clientOrigin = "''https://app.example''"
            and event = "request ''https://evil.example'' (Json get_theme)" and s = server0]
       origin_is_validated
         [where L = storage0 and clientOrigin = "''https://app.example''"
            and event = "request ''https://app.example'' (Json get_theme)" and s = server0]
       origin_is_validated
         [where L = storage0 and clientOrigin = "''*''" and origin = "''https://evil.example''"
            and event = "request ''https://app.example'' (Json get_theme)" and s = server0]
  show ?thesis
    using d by (simp add: o server0_def)
qed



section \<open>Every accepted request is answered\<close>

text \<open>
  Claim C6. For a request that parses to a JSON value with an action of the vocabulary:
  when the storage operation returns, the dispatcher returns after posting a success
  envelope with the value to the source of the request; when it throws, the dispatcher
  still returns, after posting an error envelope with the message of the error. Read
  back by the client, both envelopes carry the ref of the request; and the client calls
  the handler registered under the key that ref converts to with null and the value, or
  with the message and null.
\<close>

theorem backend_result_is_answered:
  assumes "ev_data event = Json message" and "\<not> nullish message"
    and "json_norm message = message"
  shows "(backend_call L message (localStorage s) = Some (Inr (v, st)) \<longrightarrow>
            dispatch L clientOrigin event s =
              Returned (s\<lparr>localStorage := st,
                          posted := posted s @
                            [(ev_source event, JSON_stringify (success_envelope message v),
                              clientOrigin)]\<rparr>))
         \<and> (backend_call L message (localStorage s) = Some (Inl err) \<longrightarrow>
            dispatch L clientOrigin event s =
              Returned (s\<lparr>posted := posted s @
                            [(ev_source event, JSON_stringify (error_envelope message err),
                              clientOrigin)]\<rparr>))
         \<and> get_prop (json_norm (success_envelope message v)) ''ref'' = get_prop message ''ref''
         \<and> get_prop (json_norm (error_envelope message err)) ''ref'' = get_prop message ''ref''
         \<and> (ToString (get_prop message ''ref'') = Some k \<and> callbacks c k = Some (Completion h)
            \<longrightarrow>
            calls (state_of (handleMessageEvent w
                    \<lparr>ev_origin = origin, ev_data = JSON_stringify (success_envelope message v),
                      ev_source = w\<rparr> c))
              = calls c @ [(hid h, Null, json_norm v)]
            \<and> calls (state_of (handleMessageEvent w
                    \<lparr>ev_origin = origin, ev_data = JSON_stringify (error_envelope message err),
                      ev_source = w\<rparr> c))
              = calls c @ [(hid h, Str err, Null)])"
proof (intro conjI impI)
  assume "backend_call L message (localStorage s) = Some (Inr (v, st))"
  from dispatch_known [OF assms(1,2) this]
  show "dispatch L clientOrigin event s =
          Returned (s\<lparr>localStorage := st,
                      posted := posted s @
                        [(ev_source event, JSON_stringify (success_envelope message v),
                          clientOrigin)]\<rparr>)"
    by simp
next
  assume "backend_call L message (localStorage s) = Some (Inl err)"
  from dispatch_known [OF assms(1,2) this]
  show "dispatch L clientOrigin event s =
          Returned (s\<lparr>posted := posted s @
                        [(ev_source event, JSON_stringify (error_envelope message err),
                          clientOrigin)]\<rparr>)"
    by simp
next
  show "get_prop (json_norm (success_envelope message v)) ''ref'' = get_prop message ''ref''"
    by (simp add: envelope_props json_value_prop [OF assms(3)])
next
  show "get_prop (json_norm (error_envelope message err)) ''ref'' = get_prop message ''ref''"
    by (simp add: envelope_props json_value_prop [OF assms(3)])
next
  assume "ToString (get_prop message ''ref'') = Some k \<and> callbacks c k = Some (Completion h)"
  then have k: "ToString (get_prop message ''ref'') = Some k"
    and h: "callbacks c k = Some (Completion h)"
    by simp_all
  from json_value_prop [OF assms(3)] k h show "calls (state_of (handleMessageEvent w
                    \<lparr>ev_origin = origin, ev_data = JSON_stringify (success_envelope message v),
                      ev_source = w\<rparr> c))
              = calls c @ [(hid h, Null, json_norm v)]"
    by (rule handle_success)
next
  assume "ToString (get_prop message ''ref'') = Some k \<and> callbacks c k = Some (Completion h)"
  then have k: "ToString (get_prop message ''ref'') = Some k"
    and h: "callbacks c k = Some (Completion h)"
    by simp_all
  from json_value_prop [OF assms(3)] k h show "calls (state_of (handleMessageEvent w
                    \<lparr>ev_origin = origin, ev_data = JSON_stringify (error_envelope message err),
                      ev_source = w\<rparr> c))
              = calls c @ [(hid h, Str err, Null)]"
    by (rule handle_error)
qed

theorem backend_result_is_answered_witness:
  "dispatch storage0 ''*'' (request ''https://app.example'' (Json get_theme)) server0
     = Returned (server0\<lparr>posted :=
         [(0, Json (Obj [(''action'', Str ''frameStorageSuccess''), (''ref'', Str ''c1a''),
                         (''key'', Str ''theme''), (''value'', Str ''dark'')]), ''*'')]\<rparr>)
   \<and> dispatch storage0 ''*''
       (request ''https://app.example'' (Json (set_theme ''solarized-light''))) server0
     = Returned (server0\<lparr>posted :=
         [(0, Json (Obj [(''action'', Str ''frameStorageError''), (''ref'', Str ''c1a''),
                         (''key'', Str ''theme''),
                         (''message'', Str ''The quota has been exceeded.'')]), ''*'')]\<rparr>)
   \<and> calls (state_of (handleMessageEvent 1
         \<lparr>ev_origin = ''https://store.example'',
           ev_data = Json (Obj [(''action'', Str ''frameStorageSuccess''), (''ref'', Str ''c1a''),
                                (''key'', Str ''theme''), (''value'', Str ''dark'')]),
           ev_source = 1\<rparr> (pending h2)))
     = [(2, Null, Str ''dark'')]
   \<and> calls (state_of (handleMessageEvent 1
         \<lparr>ev_origin = ''https://store.example'',
           ev_data = Json (Obj [(''action'', Str ''frameStorageError''), (''ref'', Str ''c1a''),
                         (''key'', Str ''theme''),
                         (''message'', Str ''The quota has been exceeded.'')]),
           ev_source = 1\<rparr> (pending h2)))
     = [(2, Str ''The quota has been exceeded.'', Null)]"
proof -
  have e: "ev_data (request ''https://app.example'' (Json get_theme)) = Json get_theme"
    "ev_data (request ''https://app.example'' (Json (set_theme ''solarized-light'')))
       = Json (set_theme ''solarized-light'')"
    by (simp_all add: request_def)
  have r: "ToString (get_prop get_theme ''ref'') = Some ''c1a''"
    "ToString (get_prop (set_theme ''solarized-light'') ''ref'') = Some ''c1a''"
    "callbacks (pending h2) ''c1a'' = Some (Completion h2)"
    by (simp_all add: pending_fields get_theme_def set_theme_def)
  from backend_result_is_answered
         [OF e(1) requests_are_json(2) requests_are_json(1),
          where L = storage0 and s = server0 and v = "Str ''dark''" and st = "[(''theme'', ''dark'')]"
            and clientOrigin = "''*''" and c = "pending h2" and h = h2 and w = 1
            and k = "''c1a''"
            and origin = "''https://store.example''"]
       backend_result_is_answered
         [OF e(2) requests_are_json(4) requests_are_json(3),
          where L = storage0 and s = server0 and err = "''The quota has been exceeded.''"
            and clientOrigin = "''*''" and c = "pending h2" and h = h2 and w = 1
            and k = "''c1a''"
            and origin = "''https://store.example''"]
  show ?thesis
    using storage0_calls(1,2) r
    by (simp add: request_def success_envelope_def error_envelope_def JSON_stringify_def
          get_theme_def set_theme_def server0_def pending_fields h2_def)
qed


section \<open>Data that does not parse\<close>

lemma window_message_garbage:
  assumes "ev_data event = Garbage junk"
  shows "window_message event c = c"
proof -
  have h: "state_of (handleMessageEvent w event t) = t" for w t
    using assms by (simp add: handleMessageEvent_def JSON_parse_def)
  have "fold (\<lambda>w t. state_of (handleMessageEvent w event t)) ws t = t" for ws t
    by (induction ws arbitrary: t) (simp_all add: h)
  then show ?thesis by (simp add: window_message_def)
qed

text \<open>
  Claim C5 says that no exception leaves either listener when the data of a message
  does not parse. Neither listener guards its \<^verbatim>\<open>JSON.parse\<close>: the SyntaxError leaves
  both.
\<close>

theorem unparseable_message_throws:
  "thrown (initChannel storage0 None (request ''https://app.example'' (Garbage ''{action''))
             server0) = Some SyntaxError
   \<and> thrown (handleMessageEvent 1
              \<lparr>ev_origin = ''https://store.example'', ev_data = Garbage ''{action'',
                ev_source = 1\<rparr> (pending h2)) = Some SyntaxError"
  by (simp add: initChannel_def listener_def dispatch_def handleMessageEvent_def JSON_parse_def
        request_def)

text \<open>
  Claim C5, amended. When the data of a message does not parse, the listener of the
  client (for a message from its target window) and the listener of the server (for a
  message whose origin it accepts) are left by the SyntaxError of \<^verbatim>\<open>JSON.parse\<close>,
  with their state as it was: no storage operation, no response, no handler call, no
  change of the registry, no log. The page goes on as if the message had not arrived.
\<close>

theorem unparseable_message_is_dropped_by_throwing:
  assumes "ev_data event = Garbage junk"
  shows "handleMessageEvent w event c =
           (if ev_source event = w then Threw SyntaxError c else Returned c)
         \<and> window_message event c = c
         \<and> listener L clientOrigin event s =
           (if clientOrigin \<noteq> ''*'' \<and> ev_origin event \<noteq> clientOrigin
            then Returned (s\<lparr>console := console s @ [ConsoleError ''Origin mismatch'']\<rparr>)
            else Threw SyntaxError s)"
  using assms window_message_garbage [OF assms, of c]
  by (simp add: handleMessageEvent_def JSON_parse_def listener_def dispatch_garbage)

theorem unparseable_message_is_dropped_by_throwing_witness:
  "handleMessageEvent 1
     \<lparr>ev_origin = ''https://store.example'', ev_data = Garbage ''{action'', ev_source = 1\<rparr>
     (pending h2) = Threw SyntaxError (pending h2)
   \<and> run [Message \<lparr>ev_origin = ''https://store.example'', ev_data = Garbage ''{action'',
                      ev_source = 1\<rparr>] (pending h2) = pending h2
   \<and> initChannel storage0 None (request ''https://app.example'' (Garbage ''{action'')) server0
       = Threw SyntaxError server0"
  using unparseable_message_is_dropped_by_throwing
          [where event = "\<lparr>ev_origin = ''https://store.example'', ev_data = Garbage ''{action'',
                            ev_source = 1\<rparr>"
             and junk = "''{action''" and w = 1 and c = "pending h2"
             and L = storage0 and clientOrigin = "''*''" and s = server0]
        unparseable_message_is_dropped_by_throwing
          [where event = "request ''https://app.example'' (Garbage ''{action'')"
             and junk = "''{action''" and L = storage0 and clientOrigin = "''*''" and s = server0
             and w = 1 and c = "pending h2"]
  by (simp add: run_def initChannel_def request_def)


section \<open>A stored value comes back\<close>

lemma area_set_lookup: "map_of (area_set k v st) k = Some v"
  by (induction st) auto

lemma not_nullish_json_norm_Obj: "\<not> nullish (json_norm (Obj fs))"
  by simp

lemma set_request_props:
  "get_prop (json_norm (Obj [(''action'', Str ''setItem''), (''ref'', Str r), (''key'', k),
                             (''value'', v)])) ''action'' = Str ''setItem''"
  "get_prop (json_norm (Obj [(''action'', Str ''setItem''), (''ref'', Str r), (''key'', k),
                             (''value'', v)])) ''ref'' = Str r"
  "get_prop (json_norm (Obj [(''action'', Str ''setItem''), (''ref'', Str r), (''key'', k),
                             (''value'', v)])) ''key'' = json_norm k"
  "get_prop (json_norm (Obj [(''action'', Str ''setItem''), (''ref'', Str r), (''key'', k),
                             (''value'', v)])) ''value'' = json_norm v"
  by (simp_all add: get_prop_json_norm del: json_norm.simps(2))

lemma get_request_props:
  "get_prop (json_norm (Obj [(''action'', Str ''getItem''), (''ref'', Str r), (''key'', k)]))
     ''action'' = Str ''getItem''"
  "get_prop (json_norm (Obj [(''action'', Str ''getItem''), (''ref'', Str r), (''key'', k)]))
     ''ref'' = Str r"
  "get_prop (json_norm (Obj [(''action'', Str ''getItem''), (''ref'', Str r), (''key'', k)]))
     ''key'' = json_norm k"
  by (simp_all add: get_prop_json_norm del: json_norm.simps(2))

lemma web_storage_set:
  assumes "ToString (json_norm k) = Some ks" and "ToString (json_norm v) = Some vs"
    and "area_size (area_set ks vs st) \<le> capacity"
  shows "backend_call (web_storage capacity qm tm idx)
           (json_norm (Obj [(''action'', Str ''setItem''), (''ref'', Str r), (''key'', k),
                            (''value'', v)])) st
         = Some (Inr (Null, area_set ks vs st))"
  using assms
  by (simp add: backend_call_def set_request_props web_storage_def del: json_norm.simps)

lemma web_storage_get:
  assumes "ToString (json_norm k) = Some ks"
  shows "backend_call (web_storage capacity qm tm idx)
           (json_norm (Obj [(''action'', Str ''getItem''), (''ref'', Str r), (''key'', k)]))
           (area_set ks vs st)
         = Some (Inr (Str vs, area_set ks vs st))"
  using assms
  by (simp add: backend_call_def get_request_props web_storage_def area_set_lookup
        del: json_norm.simps)

lemma listener_accepts:
  "clientOrigin = ''*'' \<or> clientOrigin = ev_origin event \<Longrightarrow>
   listener L clientOrigin event s = dispatch L clientOrigin event s"
  by (auto simp add: listener_def)


lemma handle_registered:
  assumes "json_norm (get_prop message ''ref'') = get_prop message ''ref''"
    and "ToString (get_prop message ''ref'') = Some k"
    and "callbacks c k = Some (Completion h)"
  shows "\<exists>C. state_of (handleMessageEvent w
            \<lparr>ev_origin = origin, ev_data = JSON_stringify (success_envelope message v),
              ev_source = w\<rparr> c)
          = c\<lparr>calls := calls c @ [(hid h, Null, json_norm v)], callbacks := C\<rparr>
        \<and> (\<forall>k'. k' \<noteq> k \<longrightarrow> C k' = callbacks c k')"
proof -
  let ?e = "\<lparr>ev_origin = origin, ev_data = JSON_stringify (success_envelope message v),
             ev_source = w\<rparr>"
  let ?k = k
  let ?c1 = "c\<lparr>calls := calls c @ [(hid h, Null, json_norm v)]\<rparr>"
  have 1: "ev_source ?e = w" by simp
  have 2: "ev_data ?e = Json (json_norm (success_envelope message v))"
    by (simp add: JSON_stringify_def)
  have 3: "ToString (get_prop (json_norm (success_envelope message v)) ''ref'') = Some k"
    by (simp add: envelope_props(2) assms(1,2))
  have call: "call_callback (lookup_callback (callbacks c) ?k) Null (json_norm v) c
                = (case hthrows h Null (json_norm v) of None \<Rightarrow> Returned ?c1
                   | Some e \<Rightarrow> Threw e ?c1)"
    using assms(3) by (simp add: lookup_callback_def call_callback_def Let_def)
  show ?thesis
  proof (cases "hthrows h Null (json_norm v)")
    case None
    have "state_of (handleMessageEvent w ?e c)
            = c\<lparr>calls := calls c @ [(hid h, Null, json_norm v)],
                 callbacks := (callbacks c)(?k := None)\<rparr>"
      unfolding handle_response [OF 1 2 envelope_is_response(1) 3]
      using call None
      by (simp add: envelope_props first_argument_def second_argument_def)
    then show ?thesis
      by (intro exI [of _ "(callbacks c)(?k := None)"]) simp
  next
    case (Some e)
    have "state_of (handleMessageEvent w ?e c)
            = c\<lparr>calls := calls c @ [(hid h, Null, json_norm v)], callbacks := callbacks c\<rparr>"
      unfolding handle_response [OF 1 2 envelope_is_response(1) 3]
      using call Some
      by (simp add: envelope_props first_argument_def second_argument_def)
    then show ?thesis
      by (intro exI [of _ "callbacks c"]) simp
  qed
qed

lemma requests_posted:
  assumes "ready_for w origin c"
  shows "posted (getItem k (Some cb2) (setItem k v cb1 c))
           = posted c @
             [(w, JSON_stringify (Obj [(''action'', Str ''setItem''),
                   (''ref'', Str (CHR ''c'' # entropy c (draws c))), (''key'', k),
                   (''value'', v)]), origin),
              (w, JSON_stringify (Obj [(''action'', Str ''getItem''),
                   (''ref'', Str (CHR ''c'' # entropy c (Suc (draws c)))), (''key'', k)]), origin)]"
    and "callbacks (getItem k (Some cb2) (setItem k v cb1 c))
           = (case cb1 of Some h \<Rightarrow> (callbacks c)(CHR ''c'' # entropy c (draws c) \<mapsto> Completion h)
              | None \<Rightarrow> callbacks c)
             (CHR ''c'' # entropy c (Suc (draws c)) \<mapsto> Completion cb2)"
    and "calls (getItem k (Some cb2) (setItem k v cb1 c)) = calls c"
    and "listeners (getItem k (Some cb2) (setItem k v cb1 c)) = listeners c"
  using assms
  by (simp_all add: ready_for_def api_defs send_defs split: option.splits)


lemma window_message_single:
  "listeners c = [w] \<Longrightarrow> window_message event c = state_of (handleMessageEvent w event c)"
  by (simp add: window_message_def)

text \<open>
  Claim C1 says that every value stored with \<^verbatim>\<open>setItem\<close> comes back unchanged
  from \<^verbatim>\<open>getItem\<close>. The dispatcher hands the value to \<^verbatim>\<open>localStorage.setItem\<close>,
  which stores its conversion to a string: the number 5 comes back as the string
  \<^verbatim>\<open>"5"\<close>.
\<close>

theorem stored_number_comes_back_as_string:
  "calls (fst (round_trip storage0 ''https://app.example'' link0
                 (\<lambda>c. getItem (Str ''n'') (Some h2) (setItem (Str ''n'') (Num ''5'') (Some h1) c))
                 (ready0, server0)))
     = [(1, Null, Null), (2, Null, Str ''5'')]"
proof -
  let ?c2 = "getItem (Str ''n'') (Some h2) (setItem (Str ''n'') (Num ''5'') (Some h1) ready0)"
  have p: "posted ?c2 =
      [(1, Json (Obj [(''action'', Str ''setItem''), (''ref'', Str ''c1a''), (''key'', Str ''n''),
                      (''value'', Num ''5'')]), ''https://store.example''),
       (1, Json (Obj [(''action'', Str ''getItem''), (''ref'', Str ''c2b''), (''key'', Str ''n'')]),
        ''https://store.example'')]"
    and l: "listeners ?c2 = [1]" and c: "calls ?c2 = []"
    and r: "callbacks ?c2 = [''c3c'' \<mapsto> IframeOnload, ''c1a'' \<mapsto> Completion h1,
                             ''c2b'' \<mapsto> Completion h2]"
    by (simp_all add: ready0_def run_defs page0_def match_origin_def scheme_length_def
          lower_def host_char_def JSON_stringify_def non_finite_def)
  have s: "serve storage0 ''https://app.example'' link0 1 (posted ?c2) server0 =
      server0\<lparr> localStorage := [(''theme'', ''dark''), (''n'', ''5'')],
                posted :=
        [(0, Json (Obj [(''action'', Str ''frameStorageSuccess''), (''ref'', Str ''c1a''),
                        (''key'', Str ''n''), (''value'', Null)]), ''https://app.example''),
         (0, Json (Obj [(''action'', Str ''frameStorageSuccess''), (''ref'', Str ''c2b''),
                        (''key'', Str ''n''), (''value'', Str ''5'')]), ''https://app.example'')] \<rparr>"
    unfolding p
    by (simp add: serve_def link0_def listener_def dispatch_def JSON_parse_def storage0_def
          web_storage_def server0_def area_size_def sendSuccess_def sendMessage_def
          JSON_stringify_def non_finite_def)
  have rc: "calls (receive link0 1
        [(0, Json (Obj [(''action'', Str ''frameStorageSuccess''), (''ref'', Str ''c1a''),
                        (''key'', Str ''n''), (''value'', Null)]), ''https://app.example''),
         (0, Json (Obj [(''action'', Str ''frameStorageSuccess''), (''ref'', Str ''c2b''),
                        (''key'', Str ''n''), (''value'', Str ''5'')]), ''https://app.example'')]
        ?c2) = [(1, Null, Null), (2, Null, Str ''5'')]"
    by (simp add: receive_def link0_def window_message_def l c r handleMessageEvent_def
          JSON_parse_def lookup_callback_def call_callback_def handler_fields Let_def)
  have z: "posted ready0 = []" "contentWindow ready0 = 1" "posted server0 = []"
    by (simp_all add: ready0_def run_defs page0_def server0_def)
  show ?thesis
    using s rc by (simp add: round_trip_def Let_def z)
qed

text \<open>
  Claim C1, amended. Take a client whose bound functions exist and whose listener is
  registered, a link on which requests reach the frame and responses reach the page,
  two guids drawn that differ, and, when \<^verbatim>\<open>setItem\<close> is given no handler, no
  handler registered under its guid. Let the key \<open>k\<close> and the value \<open>v\<close>, as the
  frame receives them, convert to the strings \<open>ks\<close> and \<open>vs\<close>, and let the storage
  area have room for the pair. Then \<^verbatim>\<open>setItem(k, v)\<close> followed by
  \<^verbatim>\<open>getItem(k, cb)\<close> makes the dispatcher store \<open>vs\<close> under \<open>ks\<close> and ends with
  the call \<^verbatim>\<open>cb(null, vs)\<close>, after the call of the handler of \<^verbatim>\<open>setItem\<close>, if it
  was given one, with null and null. For a string \<open>v\<close> the string \<open>vs\<close> is \<open>v\<close>
  itself; a value that is not a string comes back as the string it converts to.
\<close>

theorem stored_value_comes_back_as_string:
  assumes rdy: "ready_for (contentWindow c) (channelOrigin c) c"
    and lst: "listeners c = [contentWindow c]"
    and to_frame: "channelOrigin c = ''*'' \<or> channelOrigin c = frame_origin lk"
    and to_page: "clientOrigin = ''*'' \<or> clientOrigin = page_origin lk"
    and fresh: "entropy c (draws c) \<noteq> entropy c (Suc (draws c))"
    and unused: "cb1 = None \<longrightarrow> callbacks c (CHR ''c'' # entropy c (draws c)) = None"
    and key: "ToString (json_norm k) = Some ks"
    and val: "ToString (json_norm v) = Some vs"
    and quota: "area_size (area_set ks vs (localStorage s)) \<le> capacity"
  shows "calls (fst (round_trip (web_storage capacity qm tm idx) clientOrigin lk
                      (\<lambda>c. getItem k (Some cb) (setItem k v cb1 c)) (c, s)))
           = calls c @ (case cb1 of Some h \<Rightarrow> [(hid h, Null, Null)] | None \<Rightarrow> [])
               @ [(hid cb, Null, Str vs)]
         \<and> localStorage (snd (round_trip (web_storage capacity qm tm idx) clientOrigin lk
                      (\<lambda>c. getItem k (Some cb) (setItem k v cb1 c)) (c, s)))
           = area_set ks vs (localStorage s)
         \<and> ToString (json_norm (Str x)) = Some x"
proof -
  define w where "w = contentWindow c"
  define r1 where "r1 = CHR ''c'' # entropy c (draws c)"
  define r2 where "r2 = CHR ''c'' # entropy c (Suc (draws c))"
  define m1 where "m1 = json_norm (Obj [(''action'', Str ''setItem''), (''ref'', Str r1),
                                         (''key'', k), (''value'', v)])"
  define m2 where "m2 = json_norm (Obj [(''action'', Str ''getItem''), (''ref'', Str r2),
                                         (''key'', k)])"
  define L where "L = web_storage capacity qm tm idx"
  define c2 where "c2 = getItem k (Some cb) (setItem k v cb1 c)"
  define st1 where "st1 = area_set ks vs (localStorage s)"
  define a1 where "a1 = JSON_stringify (success_envelope m1 Null)"
  define a2 where "a2 = JSON_stringify (success_envelope m2 (Str vs))"
  define s1 where "s1 = s\<lparr>localStorage := st1,
                          posted := posted s @ [(page_window lk, a1, clientOrigin)]\<rparr>"
  define s2 where "s2 = s1\<lparr>localStorage := st1,
                          posted := posted s1 @ [(page_window lk, a2, clientOrigin)]\<rparr>"
  define e1 where "e1 = \<lparr>ev_origin = frame_origin lk, ev_data = a1, ev_source = w\<rparr>"
  define e2 where "e2 = \<lparr>ev_origin = frame_origin lk, ev_data = a2, ev_source = w\<rparr>"
  define c3 where "c3 = state_of (handleMessageEvent w e1 c2)"
  define c4 where "c4 = state_of (handleMessageEvent w e2 c3)"
  have r12: "r1 \<noteq> r2"
    using fresh by (simp add: r1_def r2_def)
  note rp = requests_posted [OF rdy, of k cb v cb1, folded c2_def r1_def r2_def w_def]
  have requests: "drop (length (posted c)) (posted c2)
                    = [(w, Json m1, channelOrigin c), (w, Json m2, channelOrigin c)]"
    by (simp add: rp(1) JSON_stringify_def m1_def m2_def del: json_norm.simps)
  have m1: "\<not> nullish m1" "get_prop m1 ''ref'' = Str r1"
    and m2: "\<not> nullish m2" "get_prop m2 ''ref'' = Str r2"
    unfolding m1_def m2_def
    by (simp_all add: set_request_props get_request_props not_nullish_json_norm_Obj
          del: json_norm.simps)
  have b1: "backend_call L m1 (localStorage s) = Some (Inr (Null, st1))"
    unfolding L_def m1_def st1_def using key val quota by (rule web_storage_set)
  have "backend_call L m2 st1 = Some (Inr (Str vs, st1))"
    unfolding L_def m2_def st1_def using key by (rule web_storage_get)
  then have b2: "backend_call L m2 (localStorage s1) = Some (Inr (Str vs, st1))"
    by (simp add: s1_def)
  have d1: "dispatch L clientOrigin
              \<lparr>ev_origin = page_origin lk, ev_data = Json m1, ev_source = page_window lk\<rparr> s
            = Returned s1"
    using dispatch_known [OF _ m1(1) b1, of _ clientOrigin]
    by (simp add: s1_def a1_def)
  have d2: "dispatch L clientOrigin
              \<lparr>ev_origin = page_origin lk, ev_data = Json m2, ev_source = page_window lk\<rparr> s1
            = Returned s2"
    using dispatch_known [OF _ m2(1) b2, of _ clientOrigin]
    by (simp add: s2_def a2_def)
  have served: "serve L clientOrigin lk w (drop (length (posted c)) (posted c2)) s = s2"
    unfolding requests serve_def
    using to_frame to_page by (auto simp add: listener_accepts d1 d2)
  have responses: "drop (length (posted s)) (posted s2)
                     = [(page_window lk, a1, clientOrigin), (page_window lk, a2, clientOrigin)]"
    by (simp add: s2_def s1_def)
  have l2: "listeners c2 = [w]"
    by (simp add: rp(4) lst w_def)
  have first: "calls c3 = calls c @ (case cb1 of Some h \<Rightarrow> [(hid h, Null, Null)] | None \<Rightarrow> [])
               \<and> callbacks c3 r2 = Some (Completion cb) \<and> listeners c3 = [w]"
  proof (cases cb1)
    case None
    have "ev_data e1 = Json (json_norm (success_envelope m1 Null))"
      by (simp add: e1_def a1_def JSON_stringify_def)
    moreover have "is_response (json_norm (success_envelope m1 Null))"
      by (rule envelope_is_response)
    moreover have "ToString (get_prop (json_norm (success_envelope m1 Null)) ''ref'') = Some r1"
      by (simp add: envelope_props m1)
    moreover have "callbacks c2 r1 = None"
      using None unused r12 by (simp add: rp(2) r1_def)
    ultimately have "c3 = c2"
      unfolding c3_def by (rule unknown_ref_noop)
    with None l2 show ?thesis
      by (simp add: rp)
  next
    case (Some h)
    have "json_norm (get_prop m1 ''ref'') = get_prop m1 ''ref''"
      by (simp add: m1)
    moreover have "ToString (get_prop m1 ''ref'') = Some r1"
      by (simp add: m1)
    moreover have "callbacks c2 r1 = Some (Completion h)"
      using Some r12 by (simp add: rp(2))
    ultimately obtain C where
      "c3 = c2\<lparr>calls := calls c2 @ [(hid h, Null, json_norm Null)], callbacks := C\<rparr>"
      and "\<forall>k'. k' \<noteq> r1 \<longrightarrow> C k' = callbacks c2 k'"
      unfolding c3_def e1_def a1_def
      using handle_registered [of m1 r1 c2 h w "frame_origin lk" Null] by blast
    with Some r12 l2 show ?thesis
      by (simp add: rp)
  qed
  have "json_norm (get_prop m2 ''ref'') = get_prop m2 ''ref''"
    by (simp add: m2)
  moreover have "ToString (get_prop m2 ''ref'') = Some r2"
    by (simp add: m2)
  moreover have "callbacks c3 r2 = Some (Completion cb)"
    using first by simp
  ultimately have "calls c4 = calls c3 @ [(hid cb, Null, json_norm (Str vs))]"
    unfolding c4_def e2_def a2_def by (rule handle_success)
  with first have last: "calls c4 = calls c @ (case cb1 of Some h \<Rightarrow> [(hid h, Null, Null)] | None \<Rightarrow> [])
                                      @ [(hid cb, Null, Str vs)]"
    by simp
  have received: "receive lk w (drop (length (posted s)) (posted s2)) c2 = c4"
    unfolding responses receive_def
    using to_page first l2
    by (auto simp add: window_message_single c3_def [symmetric] e1_def [symmetric]
          e2_def [symmetric] c4_def)
  have "round_trip L clientOrigin lk (\<lambda>c. getItem k (Some cb) (setItem k v cb1 c)) (c, s)
          = (c4, s2)"
    by (simp add: round_trip_def Let_def c2_def [symmetric] w_def [symmetric] served received)
  with last show ?thesis
    by (simp add: L_def s2_def st1_def)
qed

theorem stored_value_comes_back_as_string_witness:
  "ready_for (contentWindow ready0) (channelOrigin ready0) ready0
   \<and> listeners ready0 = [contentWindow ready0]
   \<and> channelOrigin ready0 = frame_origin link0
   \<and> entropy ready0 (draws ready0) \<noteq> entropy ready0 (Suc (draws ready0))
   \<and> ToString (json_norm (Str ''lang'')) = Some ''lang''
   \<and> ToString (json_norm (Str ''en'')) = Some ''en''
   \<and> area_size (area_set ''lang'' ''en'' (localStorage server0)) \<le> 16
   \<and> calls (fst (round_trip storage0 ''https://app.example'' link0
                 (\<lambda>c. getItem (Str ''lang'') (Some h2) (setItem (Str ''lang'') (Str ''en'') (Some h1) c))
                 (ready0, server0)))
       = [(1, Null, Null), (2, Null, Str ''en'')]
   \<and> localStorage (snd (round_trip storage0 ''https://app.example'' link0
                 (\<lambda>c. getItem (Str ''lang'') (Some h2) (setItem (Str ''lang'') (Str ''en'') (Some h1) c))
                 (ready0, server0)))
       = [(''theme'', ''dark''), (''lang'', ''en'')]
   \<and> ToString (json_norm (Arr [Num ''1'', Null, Str ''a''])) = Some ''1,,a''
   \<and> area_size (area_set ''l'' ''1,,a'' (localStorage server0)) \<le> 16
   \<and> calls (fst (round_trip storage0 ''https://app.example'' link0
                 (\<lambda>c. getItem (Str ''l'') (Some h2)
                        (setItem (Str ''l'') (Arr [Num ''1'', Null, Str ''a'']) None c))
                 (ready0, server0)))
       = [(2, Null, Str ''1,,a'')]"
proof -
  have 1: "ready_for (contentWindow ready0) (channelOrigin ready0) ready0"
    and 2: "listeners ready0 = [contentWindow ready0]"
    and 3: "channelOrigin ready0 = ''*'' \<or> channelOrigin ready0 = frame_origin link0"
    and 4: "''https://app.example'' = ''*'' \<or> ''https://app.example'' = page_origin link0"
    and 5: "entropy ready0 (draws ready0) \<noteq> entropy ready0 (Suc (draws ready0))"
    and 6: "Some h1 = None \<longrightarrow> callbacks ready0 (CHR ''c'' # entropy ready0 (draws ready0)) = None"
    and 7: "ToString (json_norm (Str ''lang'')) = Some ''lang''"
    and n7: "ToString (json_norm (Str ''l'')) = Some ''l''"
    and 8: "ToString (json_norm (Str ''en'')) = Some ''en''"
    and n8: "ToString (json_norm (Arr [Num ''1'', Null, Str ''a''])) = Some ''1,,a''"
    and 9: "area_size (area_set ''lang'' ''en'' (localStorage server0)) \<le> 16"
    and n9: "area_size (area_set ''l'' ''1,,a'' (localStorage server0)) \<le> 16"
    using ready0_fields by (simp_all add: link0_def server0_def area_size_def non_finite_def)
  have "callbacks ready0 = [''c3c'' \<mapsto> IframeOnload]"
    by (simp add: ready0_def run_defs page0_def)
  then have n6: "None = None \<longrightarrow> callbacks ready0 (CHR ''c'' # entropy ready0 (draws ready0)) = None"
    using ready0_fields by simp
  from stored_value_comes_back_as_string [OF 1 2 3 4 5 6 7 8 9,
         of "''The quota has been exceeded.''" "''Cannot convert object to primitive value''"
            "\<lambda>v. Inr 0" h2 "''en''"]
       stored_value_comes_back_as_string [OF 1 2 3 4 5 n6 n7 n8 n9,
         of "''The quota has been exceeded.''" "''Cannot convert object to primitive value''"
            "\<lambda>v. Inr 0" h2 "''en''"]
  show ?thesis
    using 1 2 5 7 8 n8 9 n9 ready0_fields
    by (simp add: storage0_def [symmetric] link0_def server0_def h1_def h2_def)
qed

text \<open>
  The key has to convert: for a key that is an object with a property \<^verbatim>\<open>toString\<close>,
  both storage calls throw, the dispatcher answers each request with an error envelope,
  and both handlers get the message of the TypeError.
\<close>

lemma unconvertible_key_is_answered_with_errors:
  "calls (fst (round_trip storage0 ''https://app.example'' link0
                 (\<lambda>c. getItem (Obj [(''toString'', Num ''1'')]) (Some h2)
                        (setItem (Obj [(''toString'', Num ''1'')]) (Str ''en'') (Some h1) c))
                 (ready0, server0)))
     = [(1, Str ''Cannot convert object to primitive value'', Null),
        (2, Str ''Cannot convert object to primitive value'', Null)]
   \<and> localStorage (snd (round_trip storage0 ''https://app.example'' link0
                 (\<lambda>c. getItem (Obj [(''toString'', Num ''1'')]) (Some h2)
                        (setItem (Obj [(''toString'', Num ''1'')]) (Str ''en'') (Some h1) c))
                 (ready0, server0)))
     = [(''theme'', ''dark'')]"
proof -
  let ?k = "Obj [(''toString'', Num ''1'')]"
  let ?c2 = "getItem ?k (Some h2) (setItem ?k (Str ''en'') (Some h1) ready0)"
  let ?answers =
     "[(0, Json (Obj [(''action'', Str ''frameStorageError''), (''ref'', Str ''c1a''),
                      (''key'', ?k),
                      (''message'', Str ''Cannot convert object to primitive value'')]),
        ''https://app.example''),
       (0, Json (Obj [(''action'', Str ''frameStorageError''), (''ref'', Str ''c2b''),
                      (''key'', ?k),
                      (''message'', Str ''Cannot convert object to primitive value'')]),
        ''https://app.example'')]"
  have p: "posted ?c2 =
      [(1, Json (Obj [(''action'', Str ''setItem''), (''ref'', Str ''c1a''), (''key'', ?k),
                      (''value'', Str ''en'')]), ''https://store.example''),
       (1, Json (Obj [(''action'', Str ''getItem''), (''ref'', Str ''c2b''), (''key'', ?k)]),
        ''https://store.example'')]"
    and l: "listeners ?c2 = [1]" and c: "calls ?c2 = []"
    and r: "callbacks ?c2 = [''c3c'' \<mapsto> IframeOnload, ''c1a'' \<mapsto> Completion h1,
                             ''c2b'' \<mapsto> Completion h2]"
    by (simp_all add: ready0_def run_defs page0_def match_origin_def scheme_length_def
          lower_def host_char_def JSON_stringify_def non_finite_def)
  have s: "serve storage0 ''https://app.example'' link0 1 (posted ?c2) server0 =
      server0\<lparr> posted := ?answers \<rparr>"
    unfolding p
    by (simp add: serve_def link0_def listener_def dispatch_def JSON_parse_def storage0_def
          web_storage_def server0_def sendError_def sendMessage_def
          JSON_stringify_def non_finite_def)
  have rc: "calls (receive link0 1 ?answers ?c2)
              = [(1, Str ''Cannot convert object to primitive value'', Null),
                 (2, Str ''Cannot convert object to primitive value'', Null)]"
    by (simp add: receive_def link0_def window_message_def l c r handleMessageEvent_def
          JSON_parse_def lookup_callback_def call_callback_def handler_fields Let_def)
  have z: "posted ready0 = []" "contentWindow ready0 = 1" "posted server0 = []"
    by (simp_all add: ready0_def run_defs page0_def server0_def)
  show ?thesis
    using s rc by (simp add: round_trip_def Let_def z server0_def)
qed

end
